theory Spec2Isabelle
  imports Complex_Main "HOL-Library.AList" "HOL-Library.Char_ord"
begin

section \<open>JavaScript values\<close>

text \<open>
  The repositories and services handle dynamically typed values: whatever
  \<^verbatim>\<open>JSON.parse\<close> returns for a stored text, the object literal built from a Redis
  hash, and the request fields handed over by the controllers. They are modelled by one
  datatype. An object is its list of own properties; only the first binding of a name
  counts, and \<open>AList.update\<close> overwrites that binding in place, as an assignment to an
  existing property does. Strings are lists of code units.

  Numbers are IEEE doubles in the source. The model carries them without computing on
  them: the only thing the code asks of a number is whether it is truthy.
\<close>

datatype jsnum = NaN | PosInfinity | NegInfinity | Finite real

datatype jsval =
    JUndefined
  | JNull
  | JBool bool
  | JNum jsnum
  | JStr string
  | JArr "jsval list"
  | JObj "(string \<times> jsval) list"

datatype js_error = SyntaxError | TypeError | ConnectionError | WrongType

text \<open>Truthiness, as \<^verbatim>\<open>!x\<close>, \<^verbatim>\<open>x ? a : b\<close> and \<^verbatim>\<open>x || y\<close> test it.\<close>

fun truthy :: "jsval \<Rightarrow> bool" where
  "truthy JUndefined = False"
| "truthy JNull = False"
| "truthy (JBool b) = b"
| "truthy (JNum NaN) = False"
| "truthy (JNum PosInfinity) = True"
| "truthy (JNum NegInfinity) = True"
| "truthy (JNum (Finite r)) = (r \<noteq> 0)"
| "truthy (JStr s) = (s \<noteq> [])"
| "truthy (JArr xs) = True"
| "truthy (JObj kvs) = True"

text \<open>\<^verbatim>\<open>a || b\<close>\<close>

definition or_else :: "jsval \<Rightarrow> jsval \<Rightarrow> jsval" where
  "or_else a b = (if truthy a then a else b)"

text \<open>
  \<^verbatim>\<open>position.name\<close> for the property names the code reads (\<^verbatim>\<open>deviceId\<close>,
  \<^verbatim>\<open>userId\<close>, \<^verbatim>\<open>lat\<close>, \<^verbatim>\<open>lng\<close>, \<^verbatim>\<open>name\<close>): an object yields the property
  or \<^verbatim>\<open>undefined\<close>; a number, boolean, string or array has none of these names;
  reading a property of \<^verbatim>\<open>null\<close> or \<^verbatim>\<open>undefined\<close> throws a TypeError.
\<close>

fun get_prop :: "jsval \<Rightarrow> string \<Rightarrow> js_error + jsval" where
  "get_prop JUndefined k = Inl TypeError"
| "get_prop JNull k = Inl TypeError"
| "get_prop (JObj kvs) k = Inr (case map_of kvs k of None \<Rightarrow> JUndefined | Some v \<Rightarrow> v)"
| "get_prop v k = Inr JUndefined"

text \<open>The same read on a value already known not to be \<^verbatim>\<open>null\<close> or \<^verbatim>\<open>undefined\<close>.\<close>

definition peek :: "jsval \<Rightarrow> string \<Rightarrow> jsval" where
  "peek v k = (case get_prop v k of Inl e \<Rightarrow> JUndefined | Inr x \<Rightarrow> x)"

definition has_prop :: "jsval \<Rightarrow> string \<Rightarrow> bool" where
  "has_prop v k = (case v of JObj kvs \<Rightarrow> k \<in> fst ` set kvs | _ \<Rightarrow> False)"

section \<open>View projector\<close>

text \<open>
  \<^verbatim>\<open>GPSLastPositionService._formatPositionData(position, format)\<close>: a switch on
  \<^verbatim>\<open>format\<close> with the cases \<^verbatim>\<open>'gps'\<close>, \<^verbatim>\<open>'mobile'\<close> and
  \<^verbatim>\<open>'full'\<close>/\<^verbatim>\<open>default\<close>.
\<close>

definition formatPositionData :: "jsval \<Rightarrow> string \<Rightarrow> js_error + jsval" where
  "formatPositionData position format =
     (if format = ''gps'' then
        (case get_prop position ''deviceId'' of
           Inl e \<Rightarrow> Inl e
         | Inr deviceId \<Rightarrow>
             Inr (JObj [(''id'', deviceId),
                        (''lat'', peek position ''lat''),
                        (''lng'', peek position ''lng'')]))
      else if format = ''mobile'' then
        (case get_prop position ''deviceId'' of
           Inl e \<Rightarrow> Inl e
         | Inr deviceId \<Rightarrow>
             Inr (JObj [(''id'', deviceId),
                        (''lat'', peek position ''lat''),
                        (''lng'', peek position ''lng''),
                        (''name'', or_else (peek position ''name'') (peek position ''deviceId''))]))
      else Inr position)"

text \<open>\<^verbatim>\<open>MobileLastPositionService._formatPositionDataForMobile(position)\<close>\<close>

definition formatPositionDataForMobile :: "jsval \<Rightarrow> js_error + jsval" where
  "formatPositionDataForMobile position =
     (case get_prop position ''userId'' of
        Inl e \<Rightarrow> Inl e
      | Inr userId \<Rightarrow>
          Inr (JObj [(''id'', userId),
                     (''lat'', peek position ''lat''),
                     (''lng'', peek position ''lng''),
                     (''name'', or_else (peek position ''name'') (peek position ''userId''))]))"

section \<open>Strings and arrays\<close>

text \<open>
  \<^verbatim>\<open>String.prototype.trim\<close> removes white space and line terminators from both
  ends. Of the code units below 256 these are tab, line feed, vertical tab, form feed,
  carriage return, space and no-break space.
\<close>

definition is_space :: "char \<Rightarrow> bool" where
  "is_space c = (c \<in> set [CHR 0x09, CHR 0x0A, CHR 0x0B, CHR 0x0C, CHR 0x0D, CHR 0x20, CHR 0xA0])"

definition trim :: "string \<Rightarrow> string" where
  "trim s = rev (dropWhile is_space (rev (dropWhile is_space s)))"

text \<open>
  \<^verbatim>\<open>key.replace(prefix, '')\<close> with a string pattern: the first occurrence of the
  pattern is removed, a text without the pattern is returned as it is.
\<close>

fun replace_first :: "string \<Rightarrow> string \<Rightarrow> string" where
  "replace_first pat [] = []"
| "replace_first pat (c # cs) =
     (if take (length pat) (c # cs) = pat then drop (length pat) (c # cs)
      else c # replace_first pat cs)"

text \<open>
  \<^verbatim>\<open>Array.prototype.slice(start, end)\<close> on integer arguments: a negative index counts
  from the end, and both are clamped to the array.
\<close>

definition js_slice :: "'a list \<Rightarrow> int \<Rightarrow> int \<Rightarrow> 'a list" where
  "js_slice xs start fin =
     (let n = int (length xs);
          k = (if start < 0 then max (n + start) 0 else min start n);
          f = (if fin < 0 then max (n + fin) 0 else min fin n)
      in take (nat (f - k)) (drop (nat k) xs))"

text \<open>Decimal notation of an array index, the property name of an element.\<close>

fun show_nat :: "nat \<Rightarrow> string" where
  "show_nat n =
     (if n < 10 then [char_of (48 + n)]
      else show_nat (n div 10) @ [char_of (48 + n mod 10)])"

declare show_nat.simps [simp del]

text \<open>
  The own enumerable properties that the spread \<^verbatim>\<open>{...position}\<close> copies: those of an
  object, the elements of an array and the characters of a string under their indices,
  nothing for a number or a boolean.
\<close>

fun own_props :: "jsval \<Rightarrow> (string \<times> jsval) list" where
  "own_props (JObj kvs) = kvs"
| "own_props (JArr xs) = zip (map show_nat [0..<length xs]) xs"
| "own_props (JStr s) = zip (map show_nat [0..<length s]) (map (\<lambda>c. JStr [c]) s)"
| "own_props v = []"

section \<open>The key-value store and the runtime\<close>

text \<open>
  A Redis value as the client's commands show it. A sorted set is the list of its members
  in ascending rank, the order of \<^verbatim>\<open>ZRANGE key 0 -1\<close>. \<open>ROther t\<close> is a value of any
  further type, \<open>t\<close> being what \<^verbatim>\<open>TYPE\<close> answers for it (\<^verbatim>\<open>set\<close>, \<^verbatim>\<open>stream\<close>, ...).
\<close>

datatype redis_value =
    RString string
  | RHash "(string \<times> string) list"
  | RList "string list"
  | RZSet "string list"
  | ROther string

text \<open>
  The connection as \<^verbatim>\<open>connect()\<close> tells its cases apart: the client's status is
  \<^verbatim>\<open>'ready'\<close>; or it is not, but \<^verbatim>\<open>isConnected\<close> is set or the status is
  \<^verbatim>\<open>'connecting'\<close>; or neither, as for a client just created.
\<close>

datatype link_state = Ready | Engaged | Closed

text \<open>
  What a call depends on besides its arguments: the keys of the store in the order in
  which \<^verbatim>\<open>KEYS\<close> lists them, the state of the connection when the call starts,
  whether \<^verbatim>\<open>client.connect()\<close> resolves (\<open>online\<close>) and the message of its error
  when it does not, the configured key prefix of the device namespace
  (\<^verbatim>\<open>config.redis.keyPrefix\<close>), the clock, and the two built-in functions
  \<^verbatim>\<open>JSON.parse\<close> (\<open>None\<close> when it throws a SyntaxError) and \<^verbatim>\<open>parseFloat\<close>,
  which are taken as they are. The commands of a client that is ready or about to be
  are answered from the store.
\<close>

record env =
  store :: "(string \<times> redis_value) list"
  link :: link_state
  online :: bool
  connect_error :: string
  keyPrefix :: string
  JSON_parse :: "string \<Rightarrow> jsval option"
  parseFloat :: "string \<Rightarrow> jsnum"
  now :: string

text \<open>
  What a call does besides returning: the commands it sends to the store and the calls
  of the logger with their level, in order. \<open>Connect\<close> stands for a call of the
  repository's \<^verbatim>\<open>connect()\<close>, which creates the client on first use and opens the
  connection where it has to. Every event but a line of the log counts as an access to
  the store.
\<close>

datatype level = Error | Warn | Info | Debug

datatype event =
    Connect
  | Exists string
  | TypeOf string
  | Get string
  | HGetAll string
  | LIndex string int
  | ZRevRange string int int
  | Keys string
  | Log level


text \<open>\<^verbatim>\<open>message.includes(part)\<close>\<close>

fun js_includes :: "string \<Rightarrow> string \<Rightarrow> bool" where
  "js_includes [] part = (part = [])"
| "js_includes (c # cs) part = (take (length part) (c # cs) = part \<or> js_includes cs part)"

text \<open>
  \<^verbatim>\<open>connect()\<close>. A client that is ready is returned at once. A client that is neither
  connected nor connecting is connected: on success an informational line is logged; an
  error whose message says that the client is already connecting or connected is logged
  for debugging and the client returned; any other error is logged and thrown again. In
  the remaining case the client is returned as it is.
\<close>

definition connect :: "env \<Rightarrow> (js_error + unit) \<times> event list" where
  "connect env =
     (case link env of
        Ready \<Rightarrow> (Inr (), [Connect])
      | Closed \<Rightarrow>
          if online env then (Inr (), [Connect, Log Info])
          else if js_includes (connect_error env) ''already connecting''
                  \<or> js_includes (connect_error env) ''already connected''
          then (Inr (), [Connect, Log Debug])
          else (Inl ConnectionError, [Connect, Log Error])
      | Engaged \<Rightarrow> (Inr (), [Connect]))"

text \<open>
  The state after a call of \<^verbatim>\<open>connect()\<close> that returned: \<^verbatim>\<open>isConnected\<close> is set,
  so that the further calls within the same request return the client without a line in
  the log.
\<close>

definition connected :: "env \<Rightarrow> env" where
  "connected env = env\<lparr>link := (case link env of Closed \<Rightarrow> Engaged | l \<Rightarrow> l)\<rparr>"

definition redis_exists :: "env \<Rightarrow> string \<Rightarrow> bool" where
  "redis_exists env key = (map_of (store env) key \<noteq> None)"

definition redis_type :: "env \<Rightarrow> string \<Rightarrow> string" where
  "redis_type env key =
     (case map_of (store env) key of
        None \<Rightarrow> ''none''
      | Some (RString s) \<Rightarrow> ''string''
      | Some (RHash h) \<Rightarrow> ''hash''
      | Some (RList xs) \<Rightarrow> ''list''
      | Some (RZSet ms) \<Rightarrow> ''zset''
      | Some (ROther t) \<Rightarrow> t)"

text \<open>A command sent to a key of another type is answered with a WRONGTYPE error.\<close>

definition redis_get :: "env \<Rightarrow> string \<Rightarrow> js_error + string option" where
  "redis_get env key =
     (case map_of (store env) key of
        None \<Rightarrow> Inr None
      | Some (RString s) \<Rightarrow> Inr (Some s)
      | Some v \<Rightarrow> Inl WrongType)"

definition redis_hgetall :: "env \<Rightarrow> string \<Rightarrow> js_error + (string \<times> string) list" where
  "redis_hgetall env key =
     (case map_of (store env) key of
        None \<Rightarrow> Inr []
      | Some (RHash h) \<Rightarrow> Inr h
      | Some v \<Rightarrow> Inl WrongType)"

text \<open>\<^verbatim>\<open>LINDEX key -1\<close>: the last element, or nil.\<close>

definition redis_lindex_last :: "env \<Rightarrow> string \<Rightarrow> js_error + string option" where
  "redis_lindex_last env key =
     (case map_of (store env) key of
        None \<Rightarrow> Inr None
      | Some (RList xs) \<Rightarrow> Inr (if xs = [] then None else Some (last xs))
      | Some v \<Rightarrow> Inl WrongType)"

text \<open>\<^verbatim>\<open>ZREVRANGE key 0 0\<close>: the member of highest rank, in a list.\<close>

definition redis_zrevrange_top :: "env \<Rightarrow> string \<Rightarrow> js_error + string list" where
  "redis_zrevrange_top env key =
     (case map_of (store env) key of
        None \<Rightarrow> Inr []
      | Some (RZSet ms) \<Rightarrow> Inr (if ms = [] then [] else [last ms])
      | Some v \<Rightarrow> Inl WrongType)"

text \<open>
  \<^verbatim>\<open>KEYS prefix*\<close>, for a prefix without glob characters: the keys that start with
  the prefix.
\<close>

definition redis_keys :: "env \<Rightarrow> string \<Rightarrow> string list" where
  "redis_keys env pre = filter (\<lambda>key. take (length pre) key = pre) (map fst (store env))"

text \<open>\<^verbatim>\<open>hashData.field\<close> of the object that \<^verbatim>\<open>HGETALL\<close> returns.\<close>

definition hfield :: "(string \<times> string) list \<Rightarrow> string \<Rightarrow> jsval" where
  "hfield h k = (case map_of h k of None \<Rightarrow> JUndefined | Some s \<Rightarrow> JStr s)"

text \<open>\<^verbatim>\<open>hashData.lat ? parseFloat(hashData.lat) : null\<close>\<close>

definition hnumber :: "env \<Rightarrow> (string \<times> string) list \<Rightarrow> string \<Rightarrow> jsval" where
  "hnumber env h k =
     (case hfield h k of
        JStr s \<Rightarrow> if s \<noteq> [] then JNum (parseFloat env s) else JNull
      | v \<Rightarrow> JNull)"

text \<open>\<^verbatim>\<open>JSON.parse(text)\<close>, which throws on a malformed text.\<close>

definition parse_json :: "env \<Rightarrow> string \<Rightarrow> js_error + jsval" where
  "parse_json env s = (case JSON_parse env s of None \<Rightarrow> Inl SyntaxError | Some v \<Rightarrow> Inr v)"

text \<open>\<^verbatim>\<open>hashData.metadata ? JSON.parse(hashData.metadata) : null\<close>\<close>

definition hmetadata :: "env \<Rightarrow> (string \<times> string) list \<Rightarrow> js_error + jsval" where
  "hmetadata env h =
     (case hfield h ''metadata'' of
        JStr s \<Rightarrow> if s \<noteq> [] then parse_json env s else Inr JNull
      | v \<Rightarrow> Inr JNull)"

section \<open>Device namespace: GPSLastPositionRepository\<close>

text \<open>\<^verbatim>\<open>getDataByType(key, deviceId)\<close>: the switch on the answer of \<^verbatim>\<open>TYPE\<close>.\<close>

definition GPS_getDataByType :: "env \<Rightarrow> string \<Rightarrow> string \<Rightarrow> (js_error + jsval) \<times> event list" where
  "GPS_getDataByType env key deviceId =
     (let dataType = redis_type env key in
      if dataType = ''string'' then
        (case redis_get env key of
           Inl e \<Rightarrow> (Inl e, [TypeOf key, Get key])
         | Inr None \<Rightarrow> (Inr JNull, [TypeOf key, Get key])
         | Inr (Some stringData) \<Rightarrow>
             if stringData = [] then (Inr JNull, [TypeOf key, Get key])
             else (parse_json env stringData, [TypeOf key, Get key]))
      else if dataType = ''hash'' then
        (case redis_hgetall env key of
           Inl e \<Rightarrow> (Inl e, [TypeOf key, HGetAll key])
         | Inr hashData \<Rightarrow>
             if hashData = [] then (Inr JNull, [TypeOf key, HGetAll key])
             else (case hmetadata env hashData of
                     Inl e \<Rightarrow> (Inl e, [TypeOf key, HGetAll key])
                   | Inr metadata \<Rightarrow>
                       (Inr (JObj
                          [(''deviceId'', or_else (hfield hashData ''deviceId'') (JStr deviceId)),
                           (''lat'', hnumber env hashData ''lat''),
                           (''lng'', hnumber env hashData ''lng''),
                           (''timestamp'', or_else (hfield hashData ''timestamp'') JNull),
                           (''receivedAt'', or_else (hfield hashData ''receivedAt'') JNull),
                           (''updatedAt'', or_else (hfield hashData ''updatedAt'') JNull),
                           (''metadata'', metadata),
                           (''name'', or_else (hfield hashData ''name'')
                                        (or_else (hfield hashData ''deviceName'') JNull))]),
                        [TypeOf key, HGetAll key])))
      else if dataType = ''list'' then
        (case redis_lindex_last env key of
           Inl e \<Rightarrow> (Inl e, [TypeOf key, LIndex key (- 1)])
         | Inr None \<Rightarrow> (Inr JNull, [TypeOf key, LIndex key (- 1)])
         | Inr (Some listData) \<Rightarrow>
             if listData = [] then (Inr JNull, [TypeOf key, LIndex key (- 1)])
             else (parse_json env listData, [TypeOf key, LIndex key (- 1)]))
      else if dataType = ''zset'' then
        (case redis_zrevrange_top env key of
           Inl e \<Rightarrow> (Inl e, [TypeOf key, ZRevRange key 0 0])
         | Inr [] \<Rightarrow> (Inr JNull, [TypeOf key, ZRevRange key 0 0])
         | Inr (member # others) \<Rightarrow> (parse_json env member, [TypeOf key, ZRevRange key 0 0]))
      else (Inr JNull, [TypeOf key, Log Warn]))"

text \<open>
  \<^verbatim>\<open>getLastPosition(deviceId)\<close>. The catch block logs the error and throws it again.
\<close>

definition GPS_getLastPosition :: "env \<Rightarrow> string \<Rightarrow> (js_error + jsval) \<times> event list" where
  "GPS_getLastPosition env deviceId =
     (case connect env of
        (Inl e, t0) \<Rightarrow> (Inl e, t0 @ [Log Error])
      | (Inr client, t0) \<Rightarrow>
          (let key = keyPrefix env @ deviceId in
           if \<not> redis_exists env key then (Inr JNull, t0 @ [Exists key, Log Debug])
           else
             (case GPS_getDataByType env key deviceId of
                (Inl e, t1) \<Rightarrow> (Inl e, t0 @ [Exists key] @ t1 @ [Log Error])
              | (Inr position, t1) \<Rightarrow>
                  if \<not> truthy position then (Inr JNull, t0 @ [Exists key] @ t1 @ [Log Debug])
                  else
                    (Inr (JObj (AList.update ''retrievedAt'' (JStr (now env))
                                  (own_props position))),
                     t0 @ [Exists key] @ t1 @ [Log Debug]))))"

text \<open>
  The loop of \<^verbatim>\<open>getMultipleLastPositions\<close> and \<^verbatim>\<open>getAllLastPositions\<close>: each
  identifier is resolved on its own, a position is pushed when there is one, and an
  error is logged as a warning and dropped.
\<close>

fun GPS_positions_loop ::
  "env \<Rightarrow> string list \<Rightarrow> jsval list \<Rightarrow> event list \<Rightarrow> jsval list \<times> event list" where
  "GPS_positions_loop env [] positions t = (positions, t)"
| "GPS_positions_loop env (deviceId # rest) positions t =
     (case GPS_getLastPosition env deviceId of
        (Inl e, t1) \<Rightarrow> GPS_positions_loop env rest positions (t @ t1 @ [Log Warn])
      | (Inr position, t1) \<Rightarrow>
          GPS_positions_loop env rest
            (if truthy position then positions @ [position] else positions) (t @ t1))"

text \<open>\<^verbatim>\<open>getMultipleLastPositions(deviceIds)\<close>\<close>

definition GPS_getMultipleLastPositions ::
  "env \<Rightarrow> string list \<Rightarrow> (js_error + jsval list) \<times> event list" where
  "GPS_getMultipleLastPositions env deviceIds =
     (case connect env of
        (Inl e, t0) \<Rightarrow> (Inl e, t0 @ [Log Error])
      | (Inr client, t0) \<Rightarrow>
          (case GPS_positions_loop (connected env) deviceIds [] t0 of
             (positions, t) \<Rightarrow> (Inr positions, t @ [Log Info])))"

text \<open>
  \<^verbatim>\<open>getAllLastPositions()\<close>: every key under the prefix, in the order of the scan,
  resolved through \<^verbatim>\<open>getLastPosition\<close> under the identifier
  \<^verbatim>\<open>key.replace(prefix, '')\<close>.
\<close>

definition GPS_getAllLastPositions :: "env \<Rightarrow> (js_error + jsval list) \<times> event list" where
  "GPS_getAllLastPositions env =
     (case connect env of
        (Inl e, t0) \<Rightarrow> (Inl e, t0 @ [Log Error])
      | (Inr client, t0) \<Rightarrow>
          (let keys = redis_keys env (keyPrefix env) in
           if keys = [] then (Inr [], t0 @ [Keys (keyPrefix env @ ''*''), Log Info])
           else
             (case GPS_positions_loop (connected env)
                     (map (replace_first (keyPrefix env)) keys) []
                     (t0 @ [Keys (keyPrefix env @ ''*'')]) of
                (positions, t) \<Rightarrow> (Inr positions, t @ [Log Info]))))"

section \<open>Mobile namespace: MobileLastPositionRepository\<close>

definition mobile_keyPrefix :: string where
  "mobile_keyPrefix = ''mobile:last:''"

text \<open>
  \<^verbatim>\<open>getDataByType(key, userId)\<close>: as for devices, but the hash's identifier is read
  under \<^verbatim>\<open>userId\<close>, then under \<^verbatim>\<open>deviceId\<close>.
\<close>

definition Mobile_getDataByType :: "env \<Rightarrow> string \<Rightarrow> string \<Rightarrow> (js_error + jsval) \<times> event list" where
  "Mobile_getDataByType env key userId =
     (let dataType = redis_type env key in
      if dataType = ''string'' then
        (case redis_get env key of
           Inl e \<Rightarrow> (Inl e, [TypeOf key, Get key])
         | Inr None \<Rightarrow> (Inr JNull, [TypeOf key, Get key])
         | Inr (Some stringData) \<Rightarrow>
             if stringData = [] then (Inr JNull, [TypeOf key, Get key])
             else (parse_json env stringData, [TypeOf key, Get key]))
      else if dataType = ''hash'' then
        (case redis_hgetall env key of
           Inl e \<Rightarrow> (Inl e, [TypeOf key, HGetAll key])
         | Inr hashData \<Rightarrow>
             if hashData = [] then (Inr JNull, [TypeOf key, HGetAll key])
             else (case hmetadata env hashData of
                     Inl e \<Rightarrow> (Inl e, [TypeOf key, HGetAll key])
                   | Inr metadata \<Rightarrow>
                       (Inr (JObj
                          [(''userId'', or_else (hfield hashData ''userId'')
                                          (or_else (hfield hashData ''deviceId'') (JStr userId))),
                           (''lat'', hnumber env hashData ''lat''),
                           (''lng'', hnumber env hashData ''lng''),
                           (''timestamp'', or_else (hfield hashData ''timestamp'') JNull),
                           (''receivedAt'', or_else (hfield hashData ''receivedAt'') JNull),
                           (''updatedAt'', or_else (hfield hashData ''updatedAt'') JNull),
                           (''metadata'', metadata),
                           (''name'', or_else (hfield hashData ''name'')
                                        (or_else (hfield hashData ''deviceName'') JNull))]),
                        [TypeOf key, HGetAll key])))
      else if dataType = ''list'' then
        (case redis_lindex_last env key of
           Inl e \<Rightarrow> (Inl e, [TypeOf key, LIndex key (- 1)])
         | Inr None \<Rightarrow> (Inr JNull, [TypeOf key, LIndex key (- 1)])
         | Inr (Some listData) \<Rightarrow>
             if listData = [] then (Inr JNull, [TypeOf key, LIndex key (- 1)])
             else (parse_json env listData, [TypeOf key, LIndex key (- 1)]))
      else if dataType = ''zset'' then
        (case redis_zrevrange_top env key of
           Inl e \<Rightarrow> (Inl e, [TypeOf key, ZRevRange key 0 0])
         | Inr [] \<Rightarrow> (Inr JNull, [TypeOf key, ZRevRange key 0 0])
         | Inr (member # others) \<Rightarrow> (parse_json env member, [TypeOf key, ZRevRange key 0 0]))
      else (Inr JNull, [TypeOf key, Log Warn]))"

text \<open>
  \<^verbatim>\<open>getLastPosition(userId)\<close>: the returned object is
  \<^verbatim>\<open>{...position, userId: position.userId || userId, retrievedAt: ...}\<close>.
\<close>

definition Mobile_getLastPosition :: "env \<Rightarrow> string \<Rightarrow> (js_error + jsval) \<times> event list" where
  "Mobile_getLastPosition env userId =
     (case connect env of
        (Inl e, t0) \<Rightarrow> (Inl e, t0 @ [Log Error])
      | (Inr client, t0) \<Rightarrow>
          (let key = mobile_keyPrefix @ userId in
           if \<not> redis_exists env key then (Inr JNull, t0 @ [Exists key, Log Debug])
           else
             (case Mobile_getDataByType env key userId of
                (Inl e, t1) \<Rightarrow> (Inl e, t0 @ [Exists key] @ t1 @ [Log Error])
              | (Inr position, t1) \<Rightarrow>
                  if \<not> truthy position then (Inr JNull, t0 @ [Exists key] @ t1 @ [Log Debug])
                  else
                    (Inr (JObj (AList.update ''retrievedAt'' (JStr (now env))
                                 (AList.update ''userId''
                                    (or_else (peek position ''userId'') (JStr userId))
                                    (own_props position)))),
                     t0 @ [Exists key] @ t1 @ [Log Debug]))))"

fun Mobile_positions_loop ::
  "env \<Rightarrow> string list \<Rightarrow> jsval list \<Rightarrow> event list \<Rightarrow> jsval list \<times> event list" where
  "Mobile_positions_loop env [] positions t = (positions, t)"
| "Mobile_positions_loop env (userId # rest) positions t =
     (case Mobile_getLastPosition env userId of
        (Inl e, t1) \<Rightarrow> Mobile_positions_loop env rest positions (t @ t1 @ [Log Warn])
      | (Inr position, t1) \<Rightarrow>
          Mobile_positions_loop env rest
            (if truthy position then positions @ [position] else positions) (t @ t1))"

definition Mobile_getAllLastPositions :: "env \<Rightarrow> (js_error + jsval list) \<times> event list" where
  "Mobile_getAllLastPositions env =
     (case connect env of
        (Inl e, t0) \<Rightarrow> (Inl e, t0 @ [Log Error])
      | (Inr client, t0) \<Rightarrow>
          (let keys = redis_keys env mobile_keyPrefix in
           if keys = [] then (Inr [], t0 @ [Keys (mobile_keyPrefix @ ''*''), Log Info])
           else
             (case Mobile_positions_loop (connected env)
                     (map (replace_first mobile_keyPrefix) keys) []
                     (t0 @ [Keys (mobile_keyPrefix @ ''*'')]) of
                (positions, t) \<Rightarrow> (Inr positions, t @ [Log Info]))))"

section \<open>Query orchestrator: GPSLastPositionService and MobileLastPositionService\<close>

text \<open>
  The objects the services return, without the human-readable \<^verbatim>\<open>error\<close> text and the
  \<^verbatim>\<open>timestamp\<close>: a failure with its \<^verbatim>\<open>code\<close> and the further fields of that
  failure, or a success with its \<^verbatim>\<open>data\<close> and \<^verbatim>\<open>summary\<close>.
\<close>

record batch_summary =
  requested :: nat
  found :: nat
  notFound :: nat
  notFoundDeviceIds :: "string list"

record listing_summary =
  total_s :: nat
  returned_s :: nat
  offset_s :: int
  limit_s :: "int option"
  format_s :: string

datatype response =
    Failure string
  | FailureInvalidIds string "jsval list"
  | FailureTooMany string nat nat
  | FailureNotFound string string
  | FailureInternal string js_error
  | SuccessOne jsval string
  | SuccessMany "jsval list" batch_summary
  | SuccessAll "jsval list" listing_summary

text \<open>
  The admission test of the services, negated:
  \<^verbatim>\<open>!id || typeof id !== 'string' || id.trim() === ''\<close>.
\<close>

definition invalid_id :: "jsval \<Rightarrow> bool" where
  "invalid_id v = (case v of JStr s \<Rightarrow> s = [] \<or> trim s = [] | _ \<Rightarrow> True)"

text \<open>\<^verbatim>\<open>id.trim()\<close> of an admitted identifier.\<close>

definition clean_id :: "jsval \<Rightarrow> string" where
  "clean_id v = (case v of JStr s \<Rightarrow> trim s | _ \<Rightarrow> [])"

text \<open>\<^verbatim>\<open>positions.map(f)\<close> for an \<open>f\<close> that may throw.\<close>

fun map_throwing :: "('a \<Rightarrow> js_error + 'b) \<Rightarrow> 'a list \<Rightarrow> js_error + 'b list" where
  "map_throwing f [] = Inr []"
| "map_throwing f (x # xs) =
     (case f x of
        Inl e \<Rightarrow> Inl e
      | Inr y \<Rightarrow> (case map_throwing f xs of Inl e \<Rightarrow> Inl e | Inr ys \<Rightarrow> Inr (y # ys)))"

text \<open>\<^verbatim>\<open>getDeviceLastPosition(deviceId, format)\<close>\<close>

definition getDeviceLastPosition :: "env \<Rightarrow> jsval \<Rightarrow> string \<Rightarrow> response \<times> event list" where
  "getDeviceLastPosition env deviceId format =
     (if invalid_id deviceId then (Failure ''INVALID_DEVICE_ID'', [])
      else
        (let cleanDeviceId = clean_id deviceId in
         case GPS_getLastPosition env cleanDeviceId of
           (Inl e, t) \<Rightarrow> (FailureInternal ''INTERNAL_ERROR'' e, [Log Info] @ t @ [Log Error])
         | (Inr position, t) \<Rightarrow>
             if \<not> truthy position then
               (FailureNotFound ''POSITION_NOT_FOUND'' cleanDeviceId, [Log Info] @ t)
             else
               (case formatPositionData position format of
                  Inl e \<Rightarrow> (FailureInternal ''INTERNAL_ERROR'' e, [Log Info] @ t @ [Log Error])
                | Inr formattedData \<Rightarrow> (SuccessOne formattedData cleanDeviceId, [Log Info] @ t))))"

text \<open>
  The validation loop of \<^verbatim>\<open>getMultipleDevicesLastPositions\<close>, which fills
  \<^verbatim>\<open>cleanDeviceIds\<close> and \<^verbatim>\<open>invalidIds\<close>.
\<close>

fun clean_loop :: "jsval list \<Rightarrow> string list \<Rightarrow> jsval list \<Rightarrow> string list \<times> jsval list" where
  "clean_loop [] cleanDeviceIds invalidIds = (cleanDeviceIds, invalidIds)"
| "clean_loop (x # xs) cleanDeviceIds invalidIds =
     (if invalid_id x then clean_loop xs cleanDeviceIds (invalidIds @ [x])
      else clean_loop xs (cleanDeviceIds @ [clean_id x]) invalidIds)"

definition maxDevices :: nat where
  "maxDevices = 100"

text \<open>
  \<^verbatim>\<open>invalidIds.join(', ')\<close> in the message of the rejection converts every entry but
  \<^verbatim>\<open>null\<close> and \<^verbatim>\<open>undefined\<close> to a string. The conversion of an object calls its
  \<^verbatim>\<open>toString\<close>: the inherited one returns a text, but an own property of that name
  hides it, is not callable (no value here is), and leaves \<^verbatim>\<open>valueOf\<close>, which returns
  the object itself, so that a TypeError is thrown. The conversion of an array joins its
  elements in the same way. Numbers, booleans and strings always convert. Only whether
  the conversion throws is modelled, the text of the message is not.
\<close>

fun toString_throws :: "jsval \<Rightarrow> bool" where
  "toString_throws (JObj kvs) = (''toString'' \<in> fst ` set kvs)"
| "toString_throws (JArr xs) = (\<exists>x \<in> set xs. toString_throws x)"
| "toString_throws v = False"

definition join_throws :: "jsval list \<Rightarrow> bool" where
  "join_throws xs = (\<exists>x \<in> set xs. toString_throws x)"

text \<open>
  \<^verbatim>\<open>getMultipleDevicesLastPositions(deviceIds, format)\<close>. Everything runs inside the
  \<^verbatim>\<open>try\<close>, whose \<^verbatim>\<open>catch\<close> logs the error and answers \<open>INTERNAL_ERROR\<close>.
\<close>

definition getMultipleDevicesLastPositions ::
  "env \<Rightarrow> jsval \<Rightarrow> string \<Rightarrow> response \<times> event list" where
  "getMultipleDevicesLastPositions env deviceIds format =
     (case deviceIds of
        JArr xs \<Rightarrow>
          if xs = [] then (Failure ''INVALID_DEVICE_IDS'', [])
          else
            (case clean_loop xs [] [] of
               (cleanDeviceIds, invalidIds) \<Rightarrow>
                 if length invalidIds > 0 then
                   (if join_throws invalidIds then
                      (FailureInternal ''INTERNAL_ERROR'' TypeError, [Log Error])
                    else (FailureInvalidIds ''INVALID_DEVICE_IDS'' invalidIds, []))
                 else if length cleanDeviceIds > maxDevices then
                   (FailureTooMany ''TOO_MANY_DEVICES'' (length cleanDeviceIds) maxDevices, [])
                 else
                   (case GPS_getMultipleLastPositions env cleanDeviceIds of
                      (Inl e, t) \<Rightarrow>
                        (FailureInternal ''INTERNAL_ERROR'' e, [Log Info] @ t @ [Log Error])
                    | (Inr positions, t) \<Rightarrow>
                        (case map_throwing (\<lambda>position. formatPositionData position format)
                                positions of
                           Inl e \<Rightarrow>
                             (FailureInternal ''INTERNAL_ERROR'' e, [Log Info] @ t @ [Log Error])
                         | Inr formattedPositions \<Rightarrow>
                             (case map_throwing (\<lambda>p. get_prop p ''deviceId'') positions of
                                Inl e \<Rightarrow>
                                  (FailureInternal ''INTERNAL_ERROR'' e,
                                   [Log Info] @ t @ [Log Error])
                              | Inr foundDeviceIds \<Rightarrow>
                                  (let notFoundIds =
                                         filter (\<lambda>id. JStr id \<notin> set foundDeviceIds)
                                           cleanDeviceIds
                                   in (SuccessMany formattedPositions
                                         \<lparr>requested = length cleanDeviceIds,
                                          found = length formattedPositions,
                                          notFound = length notFoundIds,
                                          notFoundDeviceIds = notFoundIds\<rparr>,
                                       [Log Info] @ t))))))
      | v \<Rightarrow> (Failure ''INVALID_DEVICE_IDS'', []))"

text \<open>
  The pagination step shared by both listings, on the destructured options
  \<^verbatim>\<open>{ limit = null, offset = 0 }\<close>: \<open>None\<close> is a \<^verbatim>\<open>null\<close> or absent limit.
\<close>

definition paginate :: "'a list \<Rightarrow> int option \<Rightarrow> int \<Rightarrow> 'a list" where
  "paginate formattedPositions limit offset =
     (case limit of
        None \<Rightarrow> formattedPositions
      | Some l \<Rightarrow>
          if l \<noteq> 0 \<and> l > 0 then
            (let start = max 0 offset; fin = start + l
             in js_slice formattedPositions start fin)
          else formattedPositions)"

text \<open>
  \<^verbatim>\<open>GPSLastPositionService.getAllLastPositions(options)\<close>. The options are the limit
  (\<open>None\<close> when \<^verbatim>\<open>null\<close> or absent) and the offset (\<open>None\<close> when absent, which the
  destructuring turns into 0).
\<close>

definition GPS_service_getAllLastPositions ::
  "env \<Rightarrow> int option \<Rightarrow> int option \<Rightarrow> response \<times> event list" where
  "GPS_service_getAllLastPositions env limit offset_opt =
     (let offset = (case offset_opt of None \<Rightarrow> 0 | Some n \<Rightarrow> n) in
      case GPS_getAllLastPositions env of
        (Inl e, t) \<Rightarrow> (FailureInternal ''INTERNAL_ERROR'' e, [Log Info] @ t @ [Log Error])
      | (Inr allPositions, t) \<Rightarrow>
          (case map_throwing (\<lambda>position. formatPositionData position ''gps'') allPositions of
             Inl e \<Rightarrow> (FailureInternal ''INTERNAL_ERROR'' e, [Log Info] @ t @ [Log Error])
           | Inr formattedPositions \<Rightarrow>
               (let positions = paginate formattedPositions limit offset
                in (SuccessAll positions
                      \<lparr>total_s = length formattedPositions,
                       returned_s = length positions,
                       offset_s = offset,
                       limit_s = limit,
                       format_s = ''gps''\<rparr>,
                    [Log Info] @ t))))"

text \<open>\<^verbatim>\<open>MobileLastPositionService.getAllLastPositions(options)\<close>\<close>

definition Mobile_service_getAllLastPositions ::
  "env \<Rightarrow> int option \<Rightarrow> int option \<Rightarrow> response \<times> event list" where
  "Mobile_service_getAllLastPositions env limit offset_opt =
     (let offset = (case offset_opt of None \<Rightarrow> 0 | Some n \<Rightarrow> n) in
      case Mobile_getAllLastPositions env of
        (Inl e, t) \<Rightarrow> (FailureInternal ''INTERNAL_ERROR'' e, [Log Info] @ t @ [Log Error])
      | (Inr allPositions, t) \<Rightarrow>
          (case map_throwing formatPositionDataForMobile allPositions of
             Inl e \<Rightarrow> (FailureInternal ''INTERNAL_ERROR'' e, [Log Info] @ t @ [Log Error])
           | Inr formattedPositions \<Rightarrow>
               (let positions = paginate formattedPositions limit offset
                in (SuccessAll positions
                      \<lparr>total_s = length formattedPositions,
                       returned_s = length positions,
                       offset_s = offset,
                       limit_s = limit,
                       format_s = ''mobile''\<rparr>,
                    [Log Info] @ t))))"

section \<open>Boundary layer: validateDeviceIdMiddleware\<close>

text \<open>
  The middleware either answers the request with status 400 and a code, or calls
  \<^verbatim>\<open>next()\<close>. The pattern \<^verbatim>\<open>/^[a-zA-Z0-9._-]+$/\<close> accepts the non-empty texts
  made of letters, digits, dots, underscores and hyphens.
\<close>

datatype verdict = Reject string | Next

definition allowed_char :: "char \<Rightarrow> bool" where
  "allowed_char c =
     ((CHR ''a'' \<le> c \<and> c \<le> CHR ''z'') \<or> (CHR ''A'' \<le> c \<and> c \<le> CHR ''Z'')
      \<or> (CHR ''0'' \<le> c \<and> c \<le> CHR ''9'') \<or> c = CHR ''.'' \<or> c = CHR ''_'' \<or> c = CHR ''-'')"

definition validPattern :: "string \<Rightarrow> bool" where
  "validPattern s = (s \<noteq> [] \<and> list_all allowed_char s)"

definition validateDeviceIdMiddleware :: "jsval \<Rightarrow> verdict" where
  "validateDeviceIdMiddleware deviceId =
     (if \<not> truthy deviceId then Reject ''MISSING_DEVICE_ID''
      else
        (case deviceId of
           JStr s \<Rightarrow>
             if trim s = [] then Reject ''INVALID_DEVICE_ID''
             else if length s > 100 then Reject ''DEVICE_ID_TOO_LONG''
             else if \<not> validPattern s then Reject ''INVALID_DEVICE_ID_CHARACTERS''
             else Next
         | v \<Rightarrow> Reject ''INVALID_DEVICE_ID''))"

section \<open>Derived notions and sample data\<close>

text \<open>
  What one request for an identifier contributes to the result of a batch or a listing:
  the position, if the lookup returns one, and nothing if it returns \<^verbatim>\<open>null\<close> or
  throws.
\<close>

definition found_for :: "env \<Rightarrow> string \<Rightarrow> jsval list" where
  "found_for env deviceId =
     (case fst (GPS_getLastPosition env deviceId) of
        Inl e \<Rightarrow> []
      | Inr position \<Rightarrow> if truthy position then [position] else [])"

definition mobile_found_for :: "env \<Rightarrow> string \<Rightarrow> jsval list" where
  "mobile_found_for env userId =
     (case fst (Mobile_getLastPosition env userId) of
        Inl e \<Rightarrow> []
      | Inr position \<Rightarrow> if truthy position then [position] else [])"

text \<open>The two trimmed views of a position that is an object.\<close>

definition gps_view :: "jsval \<Rightarrow> jsval" where
  "gps_view r =
     JObj [(''id'', peek r ''deviceId''), (''lat'', peek r ''lat''), (''lng'', peek r ''lng'')]"

definition mobile_view :: "jsval \<Rightarrow> jsval" where
  "mobile_view r =
     JObj [(''id'', peek r ''userId''), (''lat'', peek r ''lat''), (''lng'', peek r ''lng''),
           (''name'', or_else (peek r ''name'') (peek r ''userId''))]"

text \<open>
  The examples below run on a store with the prefix \<^verbatim>\<open>gps:last:\<close> whose client is
  ready. The two built-ins are given by their values on the texts that occur in the
  examples.
\<close>

definition sample_JSON_parse :: "string \<Rightarrow> jsval option" where
  \<open>sample_JSON_parse = map_of
     [(''{"lat":-12.04,"lng":-77.03}'',
       JObj [(''lat'', JNum (Finite (- 12.04))), (''lng'', JNum (Finite (- 77.03)))]),
      (''{"deviceId":"device-007","lat":-12.04}'',
       JObj [(''deviceId'', JStr ''device-007''), (''lat'', JNum (Finite (- 12.04)))])]\<close>

definition sample_parseFloat :: "string \<Rightarrow> jsnum" where
  "sample_parseFloat s =
     (case map_of [(''-12.04'', Finite (- 12.04)), (''-77.03'', Finite (- 77.03))] s of
        None \<Rightarrow> NaN
      | Some n \<Rightarrow> n)"

definition sample_env :: "(string \<times> redis_value) list \<Rightarrow> env" where
  "sample_env st =
     \<lparr>store = st, link = Ready, online = True, connect_error = [],
      keyPrefix = ''gps:last:'',
      JSON_parse = sample_JSON_parse, parseFloat = sample_parseFloat,
      now = ''2025-07-29T10:35:00.000Z''\<rparr>"

text \<open>Five devices stored as hashes, the recommended encoding.\<close>

definition five_devices :: "(string \<times> redis_value) list" where
  "five_devices =
     [(''gps:last:device-001'',
       RHash [(''deviceId'', ''device-001''), (''lat'', ''-12.04''), (''lng'', ''-77.03'')]),
      (''gps:last:device-002'',
       RHash [(''deviceId'', ''device-002''), (''lat'', ''-12.04''), (''lng'', ''-77.03'')]),
      (''gps:last:device-003'',
       RHash [(''deviceId'', ''device-003''), (''lat'', ''-12.04''), (''lng'', ''-77.03'')]),
      (''gps:last:device-004'',
       RHash [(''deviceId'', ''device-004''), (''lat'', ''-12.04''), (''lng'', ''-77.03'')]),
      (''gps:last:device-005'',
       RHash [(''deviceId'', ''device-005''), (''lat'', ''-12.04''), (''lng'', ''-77.03'')])]"

text \<open>The record read from such a hash, and its \<open>gps\<close> view.\<close>

definition device_record :: "string \<Rightarrow> jsval" where
  "device_record deviceId =
     JObj [(''deviceId'', JStr deviceId),
           (''lat'', JNum (Finite (- 12.04))), (''lng'', JNum (Finite (- 77.03))),
           (''timestamp'', JNull), (''receivedAt'', JNull), (''updatedAt'', JNull),
           (''metadata'', JNull), (''name'', JNull),
           (''retrievedAt'', JStr ''2025-07-29T10:35:00.000Z'')]"

definition device_view :: "string \<Rightarrow> jsval" where
  "device_view deviceId =
     JObj [(''id'', JStr deviceId),
           (''lat'', JNum (Finite (- 12.04))), (''lng'', JNum (Finite (- 77.03)))]"

text \<open>
  Two mobile users: one stored as a serialized object without an identifier, one as a
  hash that names its identifier under the legacy field \<^verbatim>\<open>deviceId\<close>.
\<close>

definition two_users :: "(string \<times> redis_value) list" where
  \<open>two_users =
     [(''mobile:last:user-001'', RString ''{"lat":-12.04,"lng":-77.03}''),
      (''mobile:last:user-002'',
       RHash [(''deviceId'', ''phone-7''), (''name'', ''Juan''), (''lat'', ''-12.04'')])]\<close>

text \<open>A device whose hash names another identifier than its key.\<close>

definition mislabelled_device :: "(string \<times> redis_value) list" where
  "mislabelled_device =
     [(''gps:last:device-001'',
       RHash [(''deviceId'', ''device-999''), (''lat'', ''-12.04''), (''lng'', ''-77.03'')])]"

text \<open>Devices stored without an identifier: as a serialized object, and as a hash.\<close>

definition unlabelled_device :: "(string \<times> redis_value) list" where
  \<open>unlabelled_device =
     [(''gps:last:device-001'', RString ''{"lat":-12.04,"lng":-77.03}'')]\<close>

definition unlabelled_hash :: "(string \<times> redis_value) list" where
  "unlabelled_hash =
     [(''gps:last:device-002'', RHash [(''lat'', ''-12.04''), (''lng'', ''-77.03'')])]"

text \<open>A device stored as a list of serialized objects, the newest appended last.\<close>

definition logged_device :: "(string \<times> redis_value) list" where
  \<open>logged_device =
     [(''gps:last:device-007'',
       RList [''{"lat":-12.04,"lng":-77.03}'', ''{"deviceId":"device-007","lat":-12.04}''])]\<close>

text \<open>A key of the device namespace that holds a Redis set.\<close>

definition set_device :: "(string \<times> redis_value) list" where
  "set_device = [(''gps:last:device-001'', ROther ''set'')]"

section \<open>Auxiliary facts\<close>

subsection \<open>Running the model on the samples\<close>

lemmas gps_run_defs =
  sample_env_def sample_parseFloat_def sample_JSON_parse_def GPS_getLastPosition_def
  GPS_getDataByType_def connect_def parse_json_def redis_exists_def redis_type_def
  redis_hgetall_def redis_get_def hfield_def hnumber_def hmetadata_def or_else_def Let_def

lemmas mobile_run_defs =
  sample_env_def sample_parseFloat_def sample_JSON_parse_def Mobile_getLastPosition_def
  Mobile_getDataByType_def mobile_keyPrefix_def connect_def parse_json_def
  redis_exists_def redis_type_def redis_hgetall_def redis_get_def
  hfield_def hnumber_def hmetadata_def or_else_def peek_def Let_def

lemmas service_run_defs =
  gps_run_defs GPS_getMultipleLastPositions_def connected_def peek_def
  getDeviceLastPosition_def getMultipleDevicesLastPositions_def
  invalid_id_def clean_id_def trim_def is_space_def maxDevices_def formatPositionData_def

lemma online_sample: "online (sample_env st)"
  by (simp add: sample_env_def)

lemma connect_sample: "connect (sample_env st) = (Inr (), [Connect])"
  by (simp add: connect_def sample_env_def)

lemma keyPrefix_sample: "keyPrefix (sample_env st) = ''gps:last:''"
  by (simp add: sample_env_def)

lemma trim_device_001: "trim ''device-001'' = ''device-001''"
  by (simp add: trim_def is_space_def)

lemma found_five:
  "found_for (sample_env five_devices) ''device-001'' = [device_record ''device-001'']"
  "found_for (sample_env five_devices) ''device-002'' = [device_record ''device-002'']"
  "found_for (sample_env five_devices) ''device-003'' = [device_record ''device-003'']"
  "found_for (sample_env five_devices) ''device-004'' = [device_record ''device-004'']"
  "found_for (sample_env five_devices) ''device-005'' = [device_record ''device-005'']"
  "found_for (sample_env five_devices) ''device-404'' = []"
  by (simp_all add: found_for_def five_devices_def device_record_def gps_run_defs)

lemma keys_five:
  "redis_keys (sample_env five_devices) (keyPrefix (sample_env five_devices)) =
     [''gps:last:device-001'', ''gps:last:device-002'', ''gps:last:device-003'',
      ''gps:last:device-004'', ''gps:last:device-005'']"
  by (simp add: five_devices_def sample_env_def redis_keys_def)

lemma ids_five:
  "replace_first (keyPrefix (sample_env five_devices)) ''gps:last:device-001'' = ''device-001''"
  "replace_first (keyPrefix (sample_env five_devices)) ''gps:last:device-002'' = ''device-002''"
  "replace_first (keyPrefix (sample_env five_devices)) ''gps:last:device-003'' = ''device-003''"
  "replace_first (keyPrefix (sample_env five_devices)) ''gps:last:device-004'' = ''device-004''"
  "replace_first (keyPrefix (sample_env five_devices)) ''gps:last:device-005'' = ''device-005''"
  by (simp_all add: sample_env_def)

lemma each_five:
  "\<forall>k \<in> set [''gps:last:device-001'', ''gps:last:device-002'', ''gps:last:device-003'',
              ''gps:last:device-004'', ''gps:last:device-005''].
     found_for (sample_env five_devices)
       (replace_first (keyPrefix (sample_env five_devices)) k) \<noteq> []"
  by (simp only: list.set ball_simps ids_five found_five) simp

lemma format_device_record:
  "formatPositionData (device_record deviceId) ''gps'' = Inr (device_view deviceId)"
  by (simp add: device_record_def device_view_def formatPositionData_def peek_def)

lemma found_users:
  "mobile_found_for (sample_env two_users) ''user-001'' =
     [JObj [(''lat'', JNum (Finite (- 12.04))), (''lng'', JNum (Finite (- 77.03))),
            (''userId'', JStr ''user-001''),
            (''retrievedAt'', JStr ''2025-07-29T10:35:00.000Z'')]]"
  "mobile_found_for (sample_env two_users) ''user-002'' =
     [JObj [(''userId'', JStr ''phone-7''),
            (''lat'', JNum (Finite (- 12.04))), (''lng'', JNull),
            (''timestamp'', JNull), (''receivedAt'', JNull), (''updatedAt'', JNull),
            (''metadata'', JNull), (''name'', JStr ''Juan''),
            (''retrievedAt'', JStr ''2025-07-29T10:35:00.000Z'')]]"
  by (simp_all add: mobile_found_for_def two_users_def mobile_run_defs)

subsection \<open>The loops of the repositories\<close>

lemma GPS_positions_loop_fst:
  "fst (GPS_positions_loop env ids positions t) = positions @ concat (map (found_for env) ids)"
proof (induction ids arbitrary: positions t)
  case Nil
  then show ?case by simp
next
  case (Cons deviceId rest)
  show ?case
  proof (cases "GPS_getLastPosition env deviceId")
    case (Pair r t1)
    then show ?thesis
      by (cases r) (simp_all add: Cons.IH found_for_def)
  qed
qed

lemma Mobile_positions_loop_fst:
  "fst (Mobile_positions_loop env ids positions t)
     = positions @ concat (map (mobile_found_for env) ids)"
proof (induction ids arbitrary: positions t)
  case Nil
  then show ?case by simp
next
  case (Cons userId rest)
  show ?case
  proof (cases "Mobile_getLastPosition env userId")
    case (Pair r t1)
    then show ?thesis
      by (cases r) (simp_all add: Cons.IH mobile_found_for_def)
  qed
qed

lemma GPS_getLastPosition_object:
  assumes "fst (GPS_getLastPosition env deviceId) = Inr p" and "truthy p"
  shows "\<exists>kvs. p = JObj kvs"
  using assms
  by (cases "connect env")
     (auto simp: GPS_getLastPosition_def Let_def split: if_splits prod.splits sum.splits)

lemma Mobile_getLastPosition_object:
  assumes "fst (Mobile_getLastPosition env userId) = Inr p" and "truthy p"
  shows "\<exists>kvs. p = JObj kvs"
  using assms
  by (cases "connect env")
     (auto simp: Mobile_getLastPosition_def Let_def split: if_splits prod.splits sum.splits)

lemma found_for_object: "p \<in> set (found_for env deviceId) \<Longrightarrow> \<exists>kvs. p = JObj kvs"
  using GPS_getLastPosition_object [of env deviceId p]
  by (auto simp: found_for_def split: sum.splits if_splits)

lemma mobile_found_for_object:
  "p \<in> set (mobile_found_for env userId) \<Longrightarrow> \<exists>kvs. p = JObj kvs"
  using Mobile_getLastPosition_object [of env userId p]
  by (auto simp: mobile_found_for_def split: sum.splits if_splits)

lemma length_found_for: "length (found_for env deviceId) \<le> 1"
  by (simp add: found_for_def split: sum.splits)

lemma found_for_single:
  assumes "found_for env deviceId \<noteq> []"
  shows "\<exists>kvs. found_for env deviceId = [JObj kvs]"
proof -
  from assms length_found_for [of env deviceId]
  obtain r where r: "found_for env deviceId = [r]"
    by (cases "found_for env deviceId") auto
  then have "r \<in> set (found_for env deviceId)" by simp
  then obtain kvs where "r = JObj kvs" by (auto dest: found_for_object)
  with r show ?thesis by simp
qed

text \<open>The connection: what \<^verbatim>\<open>connect()\<close> can answer, and what stays the same after it.\<close>

lemma connect_result:
  "(\<exists>t. connect env = (Inr (), t) \<and> Log Error \<notin> set t)
   \<or> connect env = (Inl ConnectionError, [Connect, Log Error])"
  by (cases "link env") (simp_all add: connect_def)

lemma connect_cases:
  obtains t where "connect env = (Inr (), t)" "Log Error \<notin> set t"
  | "connect env = (Inl ConnectionError, [Connect, Log Error])"
  using connect_result [of env] by blast

lemma connect_online: "online env \<Longrightarrow> fst (connect env) = Inr ()"
  by (cases "link env") (simp_all add: connect_def)

lemma connect_connected: "connect (connected env) = (Inr (), [Connect])"
  by (cases "link env") (simp_all add: connect_def connected_def)

lemma store_connected [simp]:
  "store (connected env) = store env"
  "keyPrefix (connected env) = keyPrefix env"
  "JSON_parse (connected env) = JSON_parse env"
  "parseFloat (connected env) = parseFloat env"
  "now (connected env) = now env"
  by (simp_all add: connected_def)

lemma reads_connected [simp]:
  "redis_exists (connected env) = redis_exists env"
  "redis_type (connected env) = redis_type env"
  "redis_get (connected env) = redis_get env"
  "redis_hgetall (connected env) = redis_hgetall env"
  "redis_lindex_last (connected env) = redis_lindex_last env"
  "redis_zrevrange_top (connected env) = redis_zrevrange_top env"
  "redis_keys (connected env) = redis_keys env"
  "parse_json (connected env) = parse_json env"
  by (simp_all add: fun_eq_iff redis_exists_def redis_type_def redis_get_def redis_hgetall_def
        redis_lindex_last_def redis_zrevrange_top_def redis_keys_def parse_json_def)

lemma hash_connected [simp]:
  "hnumber (connected env) = hnumber env"
  "hmetadata (connected env) = hmetadata env"
  by (auto simp: fun_eq_iff hnumber_def hmetadata_def split: jsval.splits)

lemma getDataByType_connected [simp]:
  "GPS_getDataByType (connected env) = GPS_getDataByType env"
  "Mobile_getDataByType (connected env) = Mobile_getDataByType env"
  by (auto simp: fun_eq_iff GPS_getDataByType_def Mobile_getDataByType_def Let_def
           split: sum.splits option.splits list.splits)

lemma getLastPosition_connected:
  assumes "fst (connect env) = Inr ()"
  shows "fst (GPS_getLastPosition (connected env) deviceId) = fst (GPS_getLastPosition env deviceId)"
    and "fst (Mobile_getLastPosition (connected env) userId)
           = fst (Mobile_getLastPosition env userId)"
  using assms
  by (cases "connect env";
      simp add: GPS_getLastPosition_def Mobile_getLastPosition_def connect_connected Let_def
           split: prod.splits sum.splits)+

lemma found_for_connected:
  assumes "fst (connect env) = Inr ()"
  shows "found_for (connected env) = found_for env"
    and "mobile_found_for (connected env) = mobile_found_for env"
  using getLastPosition_connected [OF assms]
  by (simp_all add: fun_eq_iff found_for_def mobile_found_for_def)

lemma GPS_getMultipleLastPositions_fst:
  "fst (GPS_getMultipleLastPositions env ids) =
     (if fst (connect env) = Inr () then Inr (concat (map (found_for env) ids))
      else Inl ConnectionError)"
proof (rule connect_cases [of env])
  fix t assume c: "connect env = (Inr (), t)"
  then have "fst (connect env) = Inr ()" by simp
  with c show ?thesis
    using GPS_positions_loop_fst [of "connected env" ids "[]" t]
    by (auto simp: GPS_getMultipleLastPositions_def found_for_connected split: prod.splits)
next
  assume "connect env = (Inl ConnectionError, [Connect, Log Error])"
  then show ?thesis by (simp add: GPS_getMultipleLastPositions_def)
qed

lemma GPS_getAllLastPositions_fst:
  "fst (GPS_getAllLastPositions env) =
     (if fst (connect env) = Inr ()
      then Inr (concat (map (found_for env)
             (map (replace_first (keyPrefix env)) (redis_keys env (keyPrefix env)))))
      else Inl ConnectionError)"
proof (rule connect_cases [of env])
  fix t assume c: "connect env = (Inr (), t)"
  then have "fst (connect env) = Inr ()" by simp
  with c show ?thesis
    using GPS_positions_loop_fst [of "connected env"
      "map (replace_first (keyPrefix env)) (redis_keys env (keyPrefix env))" "[]"
      "t @ [Keys (keyPrefix env @ ''*'')]"]
    by (auto simp: GPS_getAllLastPositions_def found_for_connected Let_def split: prod.splits)
next
  assume "connect env = (Inl ConnectionError, [Connect, Log Error])"
  then show ?thesis by (simp add: GPS_getAllLastPositions_def)
qed

lemma Mobile_getAllLastPositions_fst:
  "fst (Mobile_getAllLastPositions env) =
     (if fst (connect env) = Inr ()
      then Inr (concat (map (mobile_found_for env)
             (map (replace_first mobile_keyPrefix) (redis_keys env mobile_keyPrefix))))
      else Inl ConnectionError)"
proof (rule connect_cases [of env])
  fix t assume c: "connect env = (Inr (), t)"
  then have "fst (connect env) = Inr ()" by simp
  with c show ?thesis
    using Mobile_positions_loop_fst [of "connected env"
      "map (replace_first mobile_keyPrefix) (redis_keys env mobile_keyPrefix)" "[]"
      "t @ [Keys (mobile_keyPrefix @ ''*'')]"]
    by (auto simp: Mobile_getAllLastPositions_def found_for_connected Let_def split: prod.splits)
next
  assume "connect env = (Inl ConnectionError, [Connect, Log Error])"
  then show ?thesis by (simp add: Mobile_getAllLastPositions_def)
qed

lemma all_five:
  "fst (GPS_getAllLastPositions (sample_env five_devices)) =
      Inr [device_record ''device-001'', device_record ''device-002'',
           device_record ''device-003'', device_record ''device-004'',
           device_record ''device-005'']"
  by (simp only: GPS_getAllLastPositions_fst connect_sample fst_conv refl if_True keys_five
        list.map ids_five found_five concat.simps append.simps)

lemma all_users:
  "fst (Mobile_getAllLastPositions (sample_env two_users)) =
     Inr (mobile_found_for (sample_env two_users) ''user-001''
          @ mobile_found_for (sample_env two_users) ''user-002'')"
proof -
  have keys: "redis_keys (sample_env two_users) mobile_keyPrefix
                = [''mobile:last:user-001'', ''mobile:last:user-002'']"
    by (simp add: two_users_def sample_env_def redis_keys_def mobile_keyPrefix_def)
  have ids: "replace_first mobile_keyPrefix ''mobile:last:user-001'' = ''user-001''"
    "replace_first mobile_keyPrefix ''mobile:last:user-002'' = ''user-002''"
    by (simp_all add: mobile_keyPrefix_def)
  show ?thesis
    by (simp only: Mobile_getAllLastPositions_fst connect_sample fst_conv refl if_True keys
          list.map ids concat.simps append_Nil2)
qed

subsection \<open>Projection of a listing\<close>

lemma map_throwing_Inr:
  "(\<And>x. x \<in> set xs \<Longrightarrow> f x = Inr (g x)) \<Longrightarrow> map_throwing f xs = Inr (map g xs)"
  by (induction xs) simp_all

lemma format_gps_object: "formatPositionData (JObj kvs) ''gps'' = Inr (gps_view (JObj kvs))"
  by (simp add: formatPositionData_def gps_view_def peek_def)

lemma format_mobile_object:
  "formatPositionDataForMobile (JObj kvs) = Inr (mobile_view (JObj kvs))"
  by (simp add: formatPositionDataForMobile_def mobile_view_def peek_def)

lemma GPS_listing_views:
  assumes "fst (GPS_getAllLastPositions env) = Inr ps"
  shows "map_throwing (\<lambda>position. formatPositionData position ''gps'') ps = Inr (map gps_view ps)"
proof (rule map_throwing_Inr)
  fix p assume "p \<in> set ps"
  with assms have "\<exists>kvs. p = JObj kvs"
    by (auto simp: GPS_getAllLastPositions_fst split: if_splits dest: found_for_object)
  then obtain kvs where "p = JObj kvs" by blast
  then show "formatPositionData p ''gps'' = Inr (gps_view p)"
    by (simp add: format_gps_object)
qed

lemma Mobile_listing_views:
  assumes "fst (Mobile_getAllLastPositions env) = Inr ps"
  shows "map_throwing formatPositionDataForMobile ps = Inr (map mobile_view ps)"
proof (rule map_throwing_Inr)
  fix p assume "p \<in> set ps"
  with assms have "\<exists>kvs. p = JObj kvs"
    by (auto simp: Mobile_getAllLastPositions_fst split: if_splits dest: mobile_found_for_object)
  then obtain kvs where "p = JObj kvs" by blast
  then show "formatPositionDataForMobile p = Inr (mobile_view p)"
    by (simp add: format_mobile_object)
qed

lemma GPS_service_listing:
  assumes "fst (GPS_getAllLastPositions env) = Inr ps"
  shows "fst (GPS_service_getAllLastPositions env limit offset_opt) =
     SuccessAll (paginate (map gps_view ps) limit (case offset_opt of None \<Rightarrow> 0 | Some n \<Rightarrow> n))
       \<lparr>total_s = length ps,
        returned_s = length (paginate (map gps_view ps) limit
                               (case offset_opt of None \<Rightarrow> 0 | Some n \<Rightarrow> n)),
        offset_s = (case offset_opt of None \<Rightarrow> 0 | Some n \<Rightarrow> n),
        limit_s = limit, format_s = ''gps''\<rparr>"
  using assms GPS_listing_views [OF assms]
  by (cases "GPS_getAllLastPositions env")
     (simp add: GPS_service_getAllLastPositions_def Let_def)

lemma Mobile_service_listing:
  assumes "fst (Mobile_getAllLastPositions env) = Inr ps"
  shows "fst (Mobile_service_getAllLastPositions env limit offset_opt) =
     SuccessAll (paginate (map mobile_view ps) limit (case offset_opt of None \<Rightarrow> 0 | Some n \<Rightarrow> n))
       \<lparr>total_s = length ps,
        returned_s = length (paginate (map mobile_view ps) limit
                               (case offset_opt of None \<Rightarrow> 0 | Some n \<Rightarrow> n)),
        offset_s = (case offset_opt of None \<Rightarrow> 0 | Some n \<Rightarrow> n),
        limit_s = limit, format_s = ''mobile''\<rparr>"
  using assms Mobile_listing_views [OF assms]
  by (cases "Mobile_getAllLastPositions env")
     (simp add: Mobile_service_getAllLastPositions_def Let_def)

lemma paginate_None: "paginate xs None offset = xs"
  by (simp add: paginate_def)

lemma paginate_Some: "0 < l \<Longrightarrow> paginate xs (Some l) off = js_slice xs (max 0 off) (max 0 off + l)"
  by (simp add: paginate_def Let_def)

lemma js_slice_1_3: "js_slice [a, b, c, d, e] 1 3 = [b, c]"
  by (simp add: js_slice_def)

subsection \<open>Admission\<close>

lemma clean_loop_eq:
  "clean_loop xs cs is =
     (cs @ map clean_id (filter (\<lambda>x. \<not> invalid_id x) xs), is @ filter invalid_id xs)"
  by (induction xs arbitrary: cs "is") simp_all

lemma GPS_getLastPosition_asks:
  assumes "fst (connect env) = Inr ()"
  shows "Exists (keyPrefix env @ deviceId) \<in> set (snd (GPS_getLastPosition env deviceId))"
  using assms
  by (cases "connect env")
     (auto simp: GPS_getLastPosition_def Let_def split: prod.splits sum.splits)

lemma GPS_getLastPosition_absent:
  assumes "map_of (store env) (keyPrefix env @ deviceId) = None"
  shows "GPS_getLastPosition env deviceId =
     (case connect env of
        (Inl e, t0) \<Rightarrow> (Inl e, t0 @ [Log Error])
      | (Inr client, t0) \<Rightarrow> (Inr JNull, t0 @ [Exists (keyPrefix env @ deviceId), Log Debug]))"
  using assms
  by (simp add: GPS_getLastPosition_def redis_exists_def Let_def split: prod.splits sum.splits)

lemma getDeviceLastPosition_trace:
  assumes "\<not> invalid_id deviceId"
  shows "set (snd (GPS_getLastPosition env (clean_id deviceId)))
           \<subseteq> set (snd (getDeviceLastPosition env deviceId format))"
  using assms
  by (cases "GPS_getLastPosition env (clean_id deviceId)")
     (auto simp: getDeviceLastPosition_def Let_def split: sum.splits)

lemma getDeviceLastPosition_answer:
  assumes "\<not> invalid_id deviceId"
  shows "fst (getDeviceLastPosition env deviceId format) \<noteq> Failure ''INVALID_DEVICE_ID''"
  using assms
  by (cases "GPS_getLastPosition env (clean_id deviceId)")
     (auto simp: getDeviceLastPosition_def Let_def formatPositionData_def
           split: sum.splits if_splits)

lemma getDeviceLastPosition_full:
  assumes "\<not> invalid_id deviceId" and "found_for env (clean_id deviceId) = [r]"
  shows "fst (getDeviceLastPosition env deviceId ''full'') = SuccessOne r (clean_id deviceId)"
  using assms
  by (cases "GPS_getLastPosition env (clean_id deviceId)")
     (auto simp: getDeviceLastPosition_def found_for_def Let_def formatPositionData_def
           split: sum.splits if_splits)

subsection \<open>Property names\<close>

lemma digit_not_letter:
  assumes "(n::nat) < 10"
  shows "char_of (48 + n) \<noteq> CHR ''d''"
proof
  assume "char_of (48 + n) = CHR ''d''"
  then have "(of_char (char_of (48 + n)) :: nat) = of_char (CHR ''d'')" by simp
  with assms show False by (simp add: of_char_of)
qed

lemma show_nat_no_letter: "CHR ''d'' \<notin> set (show_nat n)"
proof (induction n rule: show_nat.induct)
  case (1 n)
  show ?case
  proof (cases "n < 10")
    case True
    then show ?thesis
      using digit_not_letter [of n] by (subst show_nat.simps) auto
  next
    case False
    then have "n mod 10 < 10" by simp
    with False 1 show ?thesis
      using digit_not_letter [of "n mod 10"] by (subst show_nat.simps) auto
  qed
qed

lemma show_nat_not_deviceId: "show_nat n \<noteq> ''deviceId''"
proof
  assume "show_nat n = ''deviceId''"
  then have "CHR ''d'' \<in> set (show_nat n)" by simp
  with show_nat_no_letter show False by blast
qed

lemma index_keys_no_deviceId: "map_of (zip (map show_nat ns) vs) ''deviceId'' = None"
proof -
  have "''deviceId'' \<notin> set (map show_nat ns)"
  proof
    assume "''deviceId'' \<in> set (map show_nat ns)"
    then obtain n where "show_nat n = ''deviceId''" by auto
    with show_nat_not_deviceId show False by blast
  qed
  then have "''deviceId'' \<notin> fst ` set (zip (map show_nat ns) vs)"
    by (auto dest: set_zip_leftD)
  then show ?thesis by (simp add: map_of_eq_None_iff)
qed

lemma spread_keeps_deviceId:
  assumes "truthy q"
  shows "peek (JObj (AList.update ''retrievedAt'' v (own_props q))) ''deviceId''
           = peek q ''deviceId''"
  using assms
  by (cases q) (simp_all add: peek_def update_conv' index_keys_no_deviceId)

lemma spread_sets_userId:
  "peek (JObj (AList.update ''retrievedAt'' v (AList.update ''userId'' u kvs))) ''userId'' = u"
  by (simp add: peek_def update_conv')

subsection \<open>Decoding\<close>

lemma GPS_decode_serialized:
  assumes "map_of (store env) key
             \<in> {Some (RString s), Some (RList (xs @ [s])), Some (RZSet (ms @ [s]))}"
    and "s \<noteq> []"
  shows "fst (GPS_getDataByType env key deviceId) = parse_json env s"
  using assms
  by (auto simp: GPS_getDataByType_def redis_type_def redis_get_def redis_lindex_last_def
        redis_zrevrange_top_def split: list.splits)

lemma Mobile_decode_serialized:
  assumes "map_of (store env) key
             \<in> {Some (RString s), Some (RList (xs @ [s])), Some (RZSet (ms @ [s]))}"
    and "s \<noteq> []"
  shows "fst (Mobile_getDataByType env key userId) = parse_json env s"
  using assms
  by (auto simp: Mobile_getDataByType_def redis_type_def redis_get_def redis_lindex_last_def
        redis_zrevrange_top_def split: list.splits)

lemma hmetadata_parses:
  assumes "\<forall>t. map_of h ''metadata'' = Some t \<and> t \<noteq> [] \<longrightarrow> JSON_parse env t \<noteq> None"
  shows "\<exists>m. hmetadata env h = Inr m"
  using assms
  by (auto simp: hmetadata_def hfield_def parse_json_def split: option.splits)

lemma GPS_decode_hash:
  assumes "map_of (store env) key = Some (RHash h)" and "h \<noteq> []"
    and "hmetadata env h = Inr m"
  shows "\<exists>kvs. fst (GPS_getDataByType env key deviceId)
                  = Inr (JObj ((''deviceId'', or_else (hfield h ''deviceId'') (JStr deviceId)) # kvs))"
  using assms
  by (simp add: GPS_getDataByType_def redis_type_def redis_hgetall_def)

lemma Mobile_decode_hash:
  assumes "map_of (store env) key = Some (RHash h)" and "h \<noteq> []"
    and "hmetadata env h = Inr m"
  shows "\<exists>kvs. fst (Mobile_getDataByType env key userId)
                  = Inr (JObj ((''userId'', or_else (hfield h ''userId'')
                                  (or_else (hfield h ''deviceId'') (JStr userId))) # kvs))"
  using assms
  by (simp add: Mobile_getDataByType_def redis_type_def redis_hgetall_def)

lemma GPS_getLastPosition_found:
  assumes "fst (connect env) = Inr ()"
    and "map_of (store env) (keyPrefix env @ deviceId) = Some v"
    and "fst (GPS_getDataByType env (keyPrefix env @ deviceId) deviceId) = Inr p"
    and "truthy p"
  shows "fst (GPS_getLastPosition env deviceId)
           = Inr (JObj (AList.update ''retrievedAt'' (JStr (now env)) (own_props p)))"
  using assms
  by (cases "connect env"; cases "GPS_getDataByType env (keyPrefix env @ deviceId) deviceId")
     (simp add: GPS_getLastPosition_def redis_exists_def Let_def)

lemma Mobile_getLastPosition_found:
  assumes "fst (connect env) = Inr ()"
    and "map_of (store env) (mobile_keyPrefix @ userId) = Some v"
    and "fst (Mobile_getDataByType env (mobile_keyPrefix @ userId) userId) = Inr p"
    and "truthy p"
  shows "fst (Mobile_getLastPosition env userId)
           = Inr (JObj (AList.update ''retrievedAt'' (JStr (now env))
                   (AList.update ''userId'' (or_else (peek p ''userId'') (JStr userId))
                      (own_props p))))"
  using assms
  by (cases "connect env"; cases "Mobile_getDataByType env (mobile_keyPrefix @ userId) userId")
     (simp add: Mobile_getLastPosition_def redis_exists_def Let_def)

section \<open>Namespace store: the single lookup\<close>

text \<open>
  Claim C1, as amended. With the connection available, the single lookup of a key that
  holds a decodable record returns a record, and its identifier is the one the stored
  payload carries whenever the payload has one (non-empty), also when that differs from
  the identifier asked for. When the payload has none, the identifier asked for is
  filled in: by the mobile store for every encoding (the serialized object, the last
  element of the list, the member of highest rank, and the hash, which is read under
  \<open>userId\<close> and then under \<open>deviceId\<close>), and by the device store for the hash.
\<close>

theorem getLastPosition_entityId:
  "(fst (connect env) = Inr ()
      \<and> map_of (store env) (mobile_keyPrefix @ userId)
            \<in> {Some (RString s), Some (RList (xs @ [s])), Some (RZSet (ms @ [s]))}
      \<and> s \<noteq> [] \<and> JSON_parse env s = Some p \<and> truthy p
    \<longrightarrow> (\<exists>r. fst (Mobile_getLastPosition env userId) = Inr r \<and> truthy r
            \<and> peek r ''userId''
                = (if truthy (peek p ''userId'') then peek p ''userId'' else JStr userId)))
   \<and> (fst (connect env) = Inr ()
      \<and> map_of (store env) (mobile_keyPrefix @ userId) = Some (RHash h) \<and> h \<noteq> []
      \<and> (\<forall>t. map_of h ''metadata'' = Some t \<and> t \<noteq> [] \<longrightarrow> JSON_parse env t \<noteq> None)
    \<longrightarrow> (\<exists>r. fst (Mobile_getLastPosition env userId) = Inr r \<and> truthy r
            \<and> peek r ''userId''
                = (if truthy (hfield h ''userId'') then hfield h ''userId''
                   else if truthy (hfield h ''deviceId'') then hfield h ''deviceId''
                   else JStr userId)))
   \<and> (fst (connect env) = Inr ()
      \<and> map_of (store env) (keyPrefix env @ deviceId) = Some (RHash h) \<and> h \<noteq> []
      \<and> (\<forall>t. map_of h ''metadata'' = Some t \<and> t \<noteq> [] \<longrightarrow> JSON_parse env t \<noteq> None)
    \<longrightarrow> (\<exists>r. fst (GPS_getLastPosition env deviceId) = Inr r \<and> truthy r
            \<and> peek r ''deviceId''
                = (if truthy (hfield h ''deviceId'') then hfield h ''deviceId''
                   else JStr deviceId)))
   \<and> (fst (connect env) = Inr ()
      \<and> map_of (store env) (keyPrefix env @ deviceId)
            \<in> {Some (RString s), Some (RList (xs @ [s])), Some (RZSet (ms @ [s]))}
      \<and> s \<noteq> [] \<and> JSON_parse env s = Some p \<and> truthy (peek p ''deviceId'')
    \<longrightarrow> (\<exists>r. fst (GPS_getLastPosition env deviceId) = Inr r \<and> truthy r
            \<and> peek r ''deviceId'' = peek p ''deviceId''))"
proof (intro conjI impI)
  assume a: "fst (connect env) = Inr ()
      \<and> map_of (store env) (mobile_keyPrefix @ userId)
            \<in> {Some (RString s), Some (RList (xs @ [s])), Some (RZSet (ms @ [s]))}
      \<and> s \<noteq> [] \<and> JSON_parse env s = Some p \<and> truthy p"
  then obtain v where v: "map_of (store env) (mobile_keyPrefix @ userId) = Some v" by auto
  from a have "fst (Mobile_getDataByType env (mobile_keyPrefix @ userId) userId) = Inr p"
    using Mobile_decode_serialized [of env "mobile_keyPrefix @ userId" s xs ms userId]
    by (simp add: parse_json_def)
  with a v have "fst (Mobile_getLastPosition env userId)
      = Inr (JObj (AList.update ''retrievedAt'' (JStr (now env))
              (AList.update ''userId'' (or_else (peek p ''userId'') (JStr userId))
                 (own_props p))))"
    by (simp add: Mobile_getLastPosition_found)
  then show "\<exists>r. fst (Mobile_getLastPosition env userId) = Inr r \<and> truthy r
            \<and> peek r ''userId''
                = (if truthy (peek p ''userId'') then peek p ''userId'' else JStr userId)"
    by (simp add: spread_sets_userId or_else_def)
next
  assume a: "fst (connect env) = Inr ()
      \<and> map_of (store env) (mobile_keyPrefix @ userId) = Some (RHash h) \<and> h \<noteq> []
      \<and> (\<forall>t. map_of h ''metadata'' = Some t \<and> t \<noteq> [] \<longrightarrow> JSON_parse env t \<noteq> None)"
  then obtain m where "hmetadata env h = Inr m"
    using hmetadata_parses [of h env] by blast
  with a obtain kvs where
    d: "fst (Mobile_getDataByType env (mobile_keyPrefix @ userId) userId)
          = Inr (JObj ((''userId'', or_else (hfield h ''userId'')
                          (or_else (hfield h ''deviceId'') (JStr userId))) # kvs))"
    using Mobile_decode_hash [of env "mobile_keyPrefix @ userId" h m userId] by blast
  from a have "fst (Mobile_getLastPosition env userId)
      = Inr (JObj (AList.update ''retrievedAt'' (JStr (now env))
              (AList.update ''userId''
                 (or_else (peek (JObj ((''userId'', or_else (hfield h ''userId'')
                            (or_else (hfield h ''deviceId'') (JStr userId))) # kvs)) ''userId'')
                    (JStr userId))
                 (own_props (JObj ((''userId'', or_else (hfield h ''userId'')
                            (or_else (hfield h ''deviceId'') (JStr userId))) # kvs))))))"
    using Mobile_getLastPosition_found [OF _ _ d] by simp
  then show "\<exists>r. fst (Mobile_getLastPosition env userId) = Inr r \<and> truthy r
            \<and> peek r ''userId''
                = (if truthy (hfield h ''userId'') then hfield h ''userId''
                   else if truthy (hfield h ''deviceId'') then hfield h ''deviceId''
                   else JStr userId)"
    by (simp add: spread_sets_userId or_else_def peek_def)
next
  assume a: "fst (connect env) = Inr ()
      \<and> map_of (store env) (keyPrefix env @ deviceId) = Some (RHash h) \<and> h \<noteq> []
      \<and> (\<forall>t. map_of h ''metadata'' = Some t \<and> t \<noteq> [] \<longrightarrow> JSON_parse env t \<noteq> None)"
  then obtain m where "hmetadata env h = Inr m"
    using hmetadata_parses [of h env] by blast
  with a obtain kvs where
    d: "fst (GPS_getDataByType env (keyPrefix env @ deviceId) deviceId)
          = Inr (JObj ((''deviceId'', or_else (hfield h ''deviceId'') (JStr deviceId)) # kvs))"
    using GPS_decode_hash [of env "keyPrefix env @ deviceId" h m deviceId] by blast
  from a have "fst (GPS_getLastPosition env deviceId)
      = Inr (JObj (AList.update ''retrievedAt'' (JStr (now env))
              (own_props (JObj ((''deviceId'', or_else (hfield h ''deviceId'') (JStr deviceId))
                                # kvs)))))"
    using GPS_getLastPosition_found [OF _ _ d] by simp
  then show "\<exists>r. fst (GPS_getLastPosition env deviceId) = Inr r \<and> truthy r
            \<and> peek r ''deviceId''
                = (if truthy (hfield h ''deviceId'') then hfield h ''deviceId''
                   else JStr deviceId)"
    using spread_keeps_deviceId [of "JObj ((''deviceId'',
             or_else (hfield h ''deviceId'') (JStr deviceId)) # kvs)" "JStr (now env)"]
    by (simp add: or_else_def peek_def)
next
  assume a: "fst (connect env) = Inr ()
      \<and> map_of (store env) (keyPrefix env @ deviceId)
            \<in> {Some (RString s), Some (RList (xs @ [s])), Some (RZSet (ms @ [s]))}
      \<and> s \<noteq> [] \<and> JSON_parse env s = Some p \<and> truthy (peek p ''deviceId'')"
  then obtain v where v: "map_of (store env) (keyPrefix env @ deviceId) = Some v" by auto
  from a have p: "truthy p" by (cases p) (simp_all add: peek_def)
  from a have "fst (GPS_getDataByType env (keyPrefix env @ deviceId) deviceId) = Inr p"
    using GPS_decode_serialized [of env "keyPrefix env @ deviceId" s xs ms deviceId]
    by (simp add: parse_json_def)
  with a v p have "fst (GPS_getLastPosition env deviceId)
      = Inr (JObj (AList.update ''retrievedAt'' (JStr (now env)) (own_props p)))"
    by (simp add: GPS_getLastPosition_found)
  with p show "\<exists>r. fst (GPS_getLastPosition env deviceId) = Inr r \<and> truthy r
            \<and> peek r ''deviceId'' = peek p ''deviceId''"
    by (simp add: spread_keeps_deviceId)
qed

theorem getLastPosition_entityId_witness:
  "(\<exists>r. fst (Mobile_getLastPosition (sample_env two_users) ''user-001'') = Inr r \<and> truthy r
        \<and> peek r ''userId'' = JStr ''user-001'')
   \<and> (\<exists>r. fst (Mobile_getLastPosition (sample_env two_users) ''user-002'') = Inr r \<and> truthy r
        \<and> peek r ''userId'' = JStr ''phone-7'')
   \<and> (\<exists>r. fst (GPS_getLastPosition (sample_env unlabelled_hash) ''device-002'') = Inr r
        \<and> truthy r \<and> peek r ''deviceId'' = JStr ''device-002'')
   \<and> (\<exists>r. fst (GPS_getLastPosition (sample_env logged_device) ''device-007'') = Inr r
        \<and> truthy r \<and> peek r ''deviceId'' = JStr ''device-007'')"
proof -
  have h1: \<open>fst (connect (sample_env two_users)) = Inr ()
      \<and> map_of (store (sample_env two_users)) (mobile_keyPrefix @ ''user-001'')
            \<in> {Some (RString ''{"lat":-12.04,"lng":-77.03}''),
               Some (RList ([] @ [''{"lat":-12.04,"lng":-77.03}''])),
               Some (RZSet ([] @ [''{"lat":-12.04,"lng":-77.03}'']))}
      \<and> ''{"lat":-12.04,"lng":-77.03}'' \<noteq> []
      \<and> JSON_parse (sample_env two_users) ''{"lat":-12.04,"lng":-77.03}''
          = Some (JObj [(''lat'', JNum (Finite (- 12.04))), (''lng'', JNum (Finite (- 77.03)))])
      \<and> truthy (JObj [(''lat'', JNum (Finite (- 12.04))), (''lng'', JNum (Finite (- 77.03)))])\<close>
    by (simp add: connect_def two_users_def sample_env_def sample_JSON_parse_def
          mobile_keyPrefix_def)
  have h2: "fst (connect (sample_env two_users)) = Inr ()
      \<and> map_of (store (sample_env two_users)) (mobile_keyPrefix @ ''user-002'')
          = Some (RHash [(''deviceId'', ''phone-7''), (''name'', ''Juan''), (''lat'', ''-12.04'')])
      \<and> [(''deviceId'', ''phone-7''), (''name'', ''Juan''), (''lat'', ''-12.04'')] \<noteq> []
      \<and> (\<forall>t. map_of [(''deviceId'', ''phone-7''), (''name'', ''Juan''), (''lat'', ''-12.04'')]
                 ''metadata'' = Some t \<and> t \<noteq> []
               \<longrightarrow> JSON_parse (sample_env two_users) t \<noteq> None)"
    by (simp add: connect_def two_users_def sample_env_def mobile_keyPrefix_def)
  have h3: "fst (connect (sample_env unlabelled_hash)) = Inr ()
      \<and> map_of (store (sample_env unlabelled_hash))
            (keyPrefix (sample_env unlabelled_hash) @ ''device-002'')
          = Some (RHash [(''lat'', ''-12.04''), (''lng'', ''-77.03'')])
      \<and> [(''lat'', ''-12.04''), (''lng'', ''-77.03'')] \<noteq> []
      \<and> (\<forall>t. map_of [(''lat'', ''-12.04''), (''lng'', ''-77.03'')] ''metadata'' = Some t
                 \<and> t \<noteq> []
               \<longrightarrow> JSON_parse (sample_env unlabelled_hash) t \<noteq> None)"
    by (simp add: connect_def unlabelled_hash_def sample_env_def)
  have h4: \<open>fst (connect (sample_env logged_device)) = Inr ()
      \<and> map_of (store (sample_env logged_device))
            (keyPrefix (sample_env logged_device) @ ''device-007'')
            \<in> {Some (RString ''{"deviceId":"device-007","lat":-12.04}''),
               Some (RList ([''{"lat":-12.04,"lng":-77.03}'']
                            @ [''{"deviceId":"device-007","lat":-12.04}''])),
               Some (RZSet ([] @ [''{"deviceId":"device-007","lat":-12.04}'']))}
      \<and> ''{"deviceId":"device-007","lat":-12.04}'' \<noteq> []
      \<and> JSON_parse (sample_env logged_device) ''{"deviceId":"device-007","lat":-12.04}''
          = Some (JObj [(''deviceId'', JStr ''device-007''), (''lat'', JNum (Finite (- 12.04)))])
      \<and> truthy (peek (JObj [(''deviceId'', JStr ''device-007''),
                            (''lat'', JNum (Finite (- 12.04)))]) ''deviceId'')\<close>
    by (simp add: connect_def logged_device_def sample_env_def sample_JSON_parse_def
          peek_def)
  note t = getLastPosition_entityId [THEN conjunct1, rule_format, OF h1]
    getLastPosition_entityId [THEN conjunct2, THEN conjunct1, rule_format, OF h2]
    getLastPosition_entityId [THEN conjunct2, THEN conjunct2, THEN conjunct1, rule_format, OF h3]
    getLastPosition_entityId [THEN conjunct2, THEN conjunct2, THEN conjunct2, rule_format, OF h4]
  then show ?thesis
    by (simp add: peek_def hfield_def)
qed

text \<open>
  Claim C1 as written fails for a payload with another identifier: the lookup of
  \<open>device-001\<close> returns a record whose \<open>deviceId\<close> is \<open>device-999\<close>.
\<close>

theorem getLastPosition_mislabelled:
  "fst (GPS_getLastPosition (sample_env mislabelled_device) ''device-001'')
     = Inr (device_record ''device-999'')
   \<and> peek (device_record ''device-999'') ''deviceId'' \<noteq> JStr ''device-001''"
  by (simp add: mislabelled_device_def device_record_def gps_run_defs peek_def)

text \<open>
  Claim C9. A key whose type is none of \<open>string\<close>, \<open>hash\<close>, \<open>list\<close> and \<open>zset\<close>
  is decoded to \<^verbatim>\<open>null\<close>, with one line logged at the level of a warning and nothing
  thrown, and the single lookup of its identifier answers \<open>POSITION_NOT_FOUND\<close>; no
  error is logged on the way.
\<close>

theorem unsupported_type_not_found:
  assumes "map_of (store env) (keyPrefix env @ trim s) = Some (ROther ty)"
    and "ty \<notin> {''string'', ''hash'', ''list'', ''zset''}"
    and "online env"
    and "\<not> invalid_id (JStr s)"
  shows "GPS_getDataByType env (keyPrefix env @ trim s) (trim s)
           = (Inr JNull, [TypeOf (keyPrefix env @ trim s), Log Warn])
       \<and> getDeviceLastPosition env (JStr s) format
           = (FailureNotFound ''POSITION_NOT_FOUND'' (trim s),
              Log Info # snd (connect env)
                @ [Exists (keyPrefix env @ trim s), TypeOf (keyPrefix env @ trim s),
                   Log Warn, Log Debug])
       \<and> Log Error \<notin> set (snd (getDeviceLastPosition env (JStr s) format))"
proof -
  from assms(1,2) have ty: "redis_type env (keyPrefix env @ trim s) = ty"
    by (simp add: redis_type_def)
  with assms(2) have d: "GPS_getDataByType env (keyPrefix env @ trim s) (trim s)
           = (Inr JNull, [TypeOf (keyPrefix env @ trim s), Log Warn])"
    by (simp add: GPS_getDataByType_def)
  from assms(1) have ex: "redis_exists env (keyPrefix env @ trim s)"
    by (simp add: redis_exists_def)
  from assms(3) obtain t0 where c: "connect env = (Inr (), t0)" "Log Error \<notin> set t0"
    using connect_online [of env] by (auto intro: connect_cases [of env])
  have "GPS_getLastPosition env (trim s) =
          (Inr JNull, t0 @ [Exists (keyPrefix env @ trim s),
                            TypeOf (keyPrefix env @ trim s), Log Warn, Log Debug])"
    using c ex d by (simp add: GPS_getLastPosition_def Let_def)
  with assms(4) d c show ?thesis
    by (simp add: getDeviceLastPosition_def clean_id_def Let_def)
qed

theorem unsupported_type_not_found_witness:
  "getDeviceLastPosition (sample_env set_device) (JStr ''device-001'') ''full''
     = (FailureNotFound ''POSITION_NOT_FOUND'' ''device-001'',
        [Log Info, Connect, Exists ''gps:last:device-001'', TypeOf ''gps:last:device-001'',
         Log Warn, Log Debug])"
proof -
  have k: "map_of (store (sample_env set_device))
             (keyPrefix (sample_env set_device) @ trim ''device-001'') = Some (ROther ''set'')"
    by (simp add: trim_device_001 sample_env_def set_device_def)
  have ty: "''set'' \<notin> {''string'', ''hash'', ''list'', ''zset''}" by simp
  have v: "\<not> invalid_id (JStr ''device-001'')"
    by (simp add: invalid_id_def trim_device_001)
  show ?thesis
    using unsupported_type_not_found [OF k ty online_sample v, of "''full''"]
    by (simp add: trim_device_001 connect_sample keyPrefix_sample)
qed

section \<open>Namespace store and orchestrator: the batch lookup\<close>

text \<open>
  Claim C2, at the input where the code departs from it. The device \<open>device-001\<close> is
  stored as a serialized object without a \<open>deviceId\<close>. The batch lookup of that one
  identifier does not throw and returns the record, but its summary counts the
  identifier as found and as not found: \<open>found + notFound\<close> is 2 for 1 identifier
  requested.
\<close>

theorem batch_summary_unlabelled:
  "fst (getMultipleDevicesLastPositions (sample_env unlabelled_device)
          (JArr [JStr ''device-001'']) ''full'')
     = SuccessMany
         [JObj [(''lat'', JNum (Finite (- 12.04))), (''lng'', JNum (Finite (- 77.03))),
                (''retrievedAt'', JStr ''2025-07-29T10:35:00.000Z'')]]
         \<lparr>requested = 1, found = 1, notFound = 1, notFoundDeviceIds = [''device-001'']\<rparr>"
  by (simp add: unlabelled_device_def service_run_defs)

text \<open>
  Claim C8, as amended. The batch lookup of the store returns, in the order of the
  request, one record for each requested entry whose lookup yields one and nothing for
  the others: at most one record per entry of the requested sequence, so at most as many
  records as entries. An identifier requested several times is looked up each time.
\<close>

theorem getMany_one_per_request:
  "online env \<Longrightarrow>
   fst (GPS_getMultipleLastPositions env ids) = Inr (concat (map (found_for env) ids))
   \<and> (\<forall>deviceId. length (found_for env deviceId) \<le> 1)
   \<and> length (concat (map (found_for env) ids)) \<le> length ids"
proof (intro conjI allI)
  assume "online env"
  then show "fst (GPS_getMultipleLastPositions env ids) = Inr (concat (map (found_for env) ids))"
    by (simp add: GPS_getMultipleLastPositions_fst connect_online)
next
  fix deviceId show "length (found_for env deviceId) \<le> 1" by (rule length_found_for)
next
  show "length (concat (map (found_for env) ids)) \<le> length ids"
  proof (induction ids)
    case Nil
    then show ?case by simp
  next
    case (Cons a ids)
    then show ?case using length_found_for [of env a] by simp
  qed
qed

theorem getMany_one_per_request_witness:
  "fst (GPS_getMultipleLastPositions (sample_env five_devices)
          [''device-001'', ''device-404'', ''device-003''])
     = Inr [device_record ''device-001'', device_record ''device-003'']"
  using getMany_one_per_request [OF online_sample, of five_devices
      "[''device-001'', ''device-404'', ''device-003'']"]
  by (simp add: found_five)

text \<open>
  Claim C8 as written fails when an identifier is requested twice: the result holds two
  records for the one identifier \<open>device-001\<close>.
\<close>

theorem getMany_repeated_id:
  "fst (GPS_getMultipleLastPositions (sample_env five_devices) [''device-001'', ''device-001''])
     = Inr [device_record ''device-001'', device_record ''device-001'']"
  by (simp add: GPS_getMultipleLastPositions_fst connect_sample found_five)

section \<open>Admission of identifiers and batches\<close>

text \<open>
  Claim C3, as amended. The single lookup of the service rejects with
  \<open>INVALID_DEVICE_ID\<close>, before any command is sent and before anything is logged, the
  identifiers that are no strings or are blank after trimming, and only those. Every
  other identifier, whatever its length and characters, is never answered with that
  code and is looked up in the store once the connection is available: \<^verbatim>\<open>EXISTS\<close> is
  sent for its key, a key that is absent is answered with \<open>POSITION_NOT_FOUND\<close>, and
  the record found under it is what the view \<open>full\<close> returns. The rules on length (at
  most 100) and characters are those of the boundary layer's
  \<open>validateDeviceIdMiddleware\<close>, which answers every identifier that breaks one of
  them with a rejection.
\<close>

theorem single_lookup_validation:
  "(invalid_id deviceId \<longrightarrow>
      getDeviceLastPosition env deviceId format = (Failure ''INVALID_DEVICE_ID'', []))
   \<and> (\<not> invalid_id (JStr s) \<longrightarrow>
      fst (getDeviceLastPosition env (JStr s) format) \<noteq> Failure ''INVALID_DEVICE_ID'')
   \<and> (\<not> invalid_id (JStr s) \<and> fst (connect env) = Inr () \<longrightarrow>
      Exists (keyPrefix env @ trim s) \<in> set (snd (getDeviceLastPosition env (JStr s) format)))
   \<and> (\<not> invalid_id (JStr s) \<and> fst (connect env) = Inr ()
      \<and> map_of (store env) (keyPrefix env @ trim s) = None \<longrightarrow>
      getDeviceLastPosition env (JStr s) format =
        (FailureNotFound ''POSITION_NOT_FOUND'' (trim s),
         Log Info # snd (connect env) @ [Exists (keyPrefix env @ trim s), Log Debug]))
   \<and> (\<not> invalid_id (JStr s) \<and> found_for env (trim s) = [r] \<longrightarrow>
      fst (getDeviceLastPosition env (JStr s) ''full'') = SuccessOne r (trim s))
   \<and> (length d > 100 \<or> \<not> validPattern d \<longrightarrow>
      validateDeviceIdMiddleware (JStr d)
        \<in> {Reject ''MISSING_DEVICE_ID'', Reject ''INVALID_DEVICE_ID'',
            Reject ''DEVICE_ID_TOO_LONG'', Reject ''INVALID_DEVICE_ID_CHARACTERS''})"
proof (intro conjI impI)
  assume "invalid_id deviceId"
  then show "getDeviceLastPosition env deviceId format = (Failure ''INVALID_DEVICE_ID'', [])"
    by (simp add: getDeviceLastPosition_def)
next
  assume "\<not> invalid_id (JStr s)"
  then show "fst (getDeviceLastPosition env (JStr s) format) \<noteq> Failure ''INVALID_DEVICE_ID''"
    by (rule getDeviceLastPosition_answer)
next
  assume a: "\<not> invalid_id (JStr s) \<and> fst (connect env) = Inr ()"
  then have "Exists (keyPrefix env @ trim s) \<in> set (snd (GPS_getLastPosition env (trim s)))"
    by (simp add: GPS_getLastPosition_asks)
  with a show "Exists (keyPrefix env @ trim s)
                 \<in> set (snd (getDeviceLastPosition env (JStr s) format))"
    using getDeviceLastPosition_trace [of "JStr s" env format] by (auto simp: clean_id_def)
next
  assume a: "\<not> invalid_id (JStr s) \<and> fst (connect env) = Inr ()
      \<and> map_of (store env) (keyPrefix env @ trim s) = None"
  then obtain t0 where c: "connect env = (Inr (), t0)"
    by (cases "connect env") auto
  with a have "GPS_getLastPosition env (trim s)
                 = (Inr JNull, t0 @ [Exists (keyPrefix env @ trim s), Log Debug])"
    by (simp add: GPS_getLastPosition_absent)
  with a c show "getDeviceLastPosition env (JStr s) format =
        (FailureNotFound ''POSITION_NOT_FOUND'' (trim s),
         Log Info # snd (connect env) @ [Exists (keyPrefix env @ trim s), Log Debug])"
    by (simp add: getDeviceLastPosition_def clean_id_def Let_def)
next
  assume "\<not> invalid_id (JStr s) \<and> found_for env (trim s) = [r]"
  then show "fst (getDeviceLastPosition env (JStr s) ''full'') = SuccessOne r (trim s)"
    using getDeviceLastPosition_full [of "JStr s" env r] by (simp add: clean_id_def)
next
  assume "length d > 100 \<or> \<not> validPattern d"
  then show "validateDeviceIdMiddleware (JStr d)
        \<in> {Reject ''MISSING_DEVICE_ID'', Reject ''INVALID_DEVICE_ID'',
            Reject ''DEVICE_ID_TOO_LONG'', Reject ''INVALID_DEVICE_ID_CHARACTERS''}"
    by (auto simp: validateDeviceIdMiddleware_def)
qed

theorem single_lookup_validation_witness:
  "getDeviceLastPosition (sample_env five_devices) (JStr ''   '') ''full''
     = (Failure ''INVALID_DEVICE_ID'', [])
   \<and> Exists ''gps:last:bad id!''
       \<in> set (snd (getDeviceLastPosition (sample_env five_devices) (JStr ''bad id!'') ''full''))
   \<and> getDeviceLastPosition (sample_env five_devices) (JStr ''bad id!'') ''full''
       = (FailureNotFound ''POSITION_NOT_FOUND'' ''bad id!'',
          [Log Info, Connect, Exists ''gps:last:bad id!'', Log Debug])
   \<and> fst (getDeviceLastPosition (sample_env five_devices) (JStr '' device-001 '') ''full'')
       = SuccessOne (device_record ''device-001'') ''device-001''
   \<and> validateDeviceIdMiddleware (JStr ''bad id!'') = Reject ''INVALID_DEVICE_ID_CHARACTERS''"
proof -
  have blank: "invalid_id (JStr ''   '')"
    by (simp add: invalid_id_def trim_def is_space_def)
  have tb: "trim ''bad id!'' = ''bad id!''" and tg: "trim '' device-001 '' = ''device-001''"
    by (simp_all add: trim_def is_space_def)
  have bad: "\<not> invalid_id (JStr ''bad id!'')" and good: "\<not> invalid_id (JStr '' device-001 '')"
    by (simp_all add: invalid_id_def tb tg)
  have c: "fst (connect (sample_env five_devices)) = Inr ()"
    by (simp add: connect_sample)
  have absent: "map_of (store (sample_env five_devices))
                  (keyPrefix (sample_env five_devices) @ trim ''bad id!'') = None"
    by (simp add: tb sample_env_def five_devices_def)
  have found: "found_for (sample_env five_devices) (trim '' device-001 '')
                 = [device_record ''device-001'']"
    by (simp only: tg found_five)
  have chars: "length ''bad id!'' > 100 \<or> \<not> validPattern ''bad id!''"
    by (simp add: validPattern_def allowed_char_def)
  have m: "validateDeviceIdMiddleware (JStr ''bad id!'') = Reject ''INVALID_DEVICE_ID_CHARACTERS''"
    by (simp add: validateDeviceIdMiddleware_def validPattern_def allowed_char_def tb)
  note t = single_lookup_validation [where env = "sample_env five_devices"
      and deviceId = "JStr ''   ''" and s = "''bad id!''" and format = "''full''"
      and d = "''bad id!''"]
  note u = single_lookup_validation [where env = "sample_env five_devices"
      and s = "'' device-001 ''" and r = "device_record ''device-001''"]
  from t blank bad c absent chars u good found m show ?thesis
    by (simp add: tb tg connect_sample keyPrefix_sample)
qed

text \<open>
  Claim C3 as written fails: an identifier with a blank and an exclamation mark passes
  the validation of the service, which sends its commands to the store and answers
  \<open>POSITION_NOT_FOUND\<close>.
\<close>

theorem single_lookup_bad_characters:
  "getDeviceLastPosition (sample_env []) (JStr ''bad id!'') ''full'' =
     (FailureNotFound ''POSITION_NOT_FOUND'' ''bad id!'',
      [Log Info, Connect, Exists ''gps:last:bad id!'', Log Debug])"
  by (simp add: service_run_defs)




text \<open>
  An offending entry that cannot be written into the message: the object
  \<^verbatim>\<open>{"toString": null}\<close> makes \<^verbatim>\<open>join\<close> throw, and the batch is answered with
  \<open>INTERNAL_ERROR\<close> and a line in the error log, still without access to the store.
\<close>

lemma batch_invalid_unprintable:
  "getMultipleDevicesLastPositions (sample_env [])
     (JArr [JObj [(''toString'', JNull)], JStr ''device-001'']) ''gps''
   = (FailureInternal ''INTERNAL_ERROR'' TypeError, [Log Error])"
  by (simp add: getMultipleDevicesLastPositions_def clean_loop_eq join_throws_def
        invalid_id_def trim_device_001)

section \<open>Listing and pagination\<close>

text \<open>
  Claim C5. The listing projects every record that the scan yields and only then cuts
  the page: with a positive limit the data are \<open>slice(offset, offset + limit)\<close> of the
  projected list, and the summary counts the whole list. For a store whose scan yields
  five keys, each holding a record, the listing with limit 2 and offset 1 returns the
  \<open>gps\<close> views of the records of the second and the third key, in that order, with
  the summary total 5, returned 2, offset 1 and limit 2.
\<close>

theorem listing_page:
  "(fst (GPS_getAllLastPositions env) = Inr ps \<and> 0 < l \<longrightarrow>
      (\<exists>formatted.
         map_throwing (\<lambda>position. formatPositionData position ''gps'') ps = Inr formatted
         \<and> fst (GPS_service_getAllLastPositions env (Some l) (Some off)) =
             SuccessAll (js_slice formatted (max 0 off) (max 0 off + l))
               \<lparr>total_s = length formatted,
                returned_s = length (js_slice formatted (max 0 off) (max 0 off + l)),
                offset_s = off, limit_s = Some l, format_s = ''gps''\<rparr>))
   \<and> (online env \<and> redis_keys env (keyPrefix env) = [k0, k1, k2, k3, k4]
      \<and> (\<forall>k \<in> set [k0, k1, k2, k3, k4].
            found_for env (replace_first (keyPrefix env) k) \<noteq> [])
      \<longrightarrow>
      (\<exists>r1 r2 f1 f2.
           found_for env (replace_first (keyPrefix env) k1) = [r1]
         \<and> found_for env (replace_first (keyPrefix env) k2) = [r2]
         \<and> formatPositionData r1 ''gps'' = Inr f1
         \<and> formatPositionData r2 ''gps'' = Inr f2
         \<and> fst (GPS_service_getAllLastPositions env (Some 2) (Some 1)) =
             SuccessAll [f1, f2]
               \<lparr>total_s = 5, returned_s = 2, offset_s = 1, limit_s = Some 2,
                format_s = ''gps''\<rparr>))"
proof (intro conjI impI)
  assume a: "fst (GPS_getAllLastPositions env) = Inr ps \<and> 0 < l"
  then have all: "fst (GPS_getAllLastPositions env) = Inr ps" and l: "0 < l" by simp_all
  show "\<exists>formatted.
         map_throwing (\<lambda>position. formatPositionData position ''gps'') ps = Inr formatted
         \<and> fst (GPS_service_getAllLastPositions env (Some l) (Some off)) =
             SuccessAll (js_slice formatted (max 0 off) (max 0 off + l))
               \<lparr>total_s = length formatted,
                returned_s = length (js_slice formatted (max 0 off) (max 0 off + l)),
                offset_s = off, limit_s = Some l, format_s = ''gps''\<rparr>"
    using GPS_listing_views [OF all] GPS_service_listing [OF all, of "Some l" "Some off"] l
    by (simp add: paginate_Some)
next
  assume a: "online env \<and> redis_keys env (keyPrefix env) = [k0, k1, k2, k3, k4]
      \<and> (\<forall>k \<in> set [k0, k1, k2, k3, k4].
            found_for env (replace_first (keyPrefix env) k) \<noteq> [])"
  then obtain o0 o1 o2 o3 o4 where
    r: "found_for env (replace_first (keyPrefix env) k0) = [JObj o0]"
       "found_for env (replace_first (keyPrefix env) k1) = [JObj o1]"
       "found_for env (replace_first (keyPrefix env) k2) = [JObj o2]"
       "found_for env (replace_first (keyPrefix env) k3) = [JObj o3]"
       "found_for env (replace_first (keyPrefix env) k4) = [JObj o4]"
    using found_for_single [of env "replace_first (keyPrefix env) k0"]
      found_for_single [of env "replace_first (keyPrefix env) k1"]
      found_for_single [of env "replace_first (keyPrefix env) k2"]
      found_for_single [of env "replace_first (keyPrefix env) k3"]
      found_for_single [of env "replace_first (keyPrefix env) k4"]
    by auto
  have all: "fst (GPS_getAllLastPositions env) = Inr [JObj o0, JObj o1, JObj o2, JObj o3, JObj o4]"
    using a r by (simp add: GPS_getAllLastPositions_fst connect_online)
  have "fst (GPS_service_getAllLastPositions env (Some 2) (Some 1)) =
          SuccessAll [gps_view (JObj o1), gps_view (JObj o2)]
            \<lparr>total_s = 5, returned_s = 2, offset_s = 1, limit_s = Some 2, format_s = ''gps''\<rparr>"
    using GPS_service_listing [OF all, of "Some 2" "Some 1"]
    by (simp add: paginate_Some js_slice_1_3)
  with r(2,3) show "\<exists>r1 r2 f1 f2.
           found_for env (replace_first (keyPrefix env) k1) = [r1]
         \<and> found_for env (replace_first (keyPrefix env) k2) = [r2]
         \<and> formatPositionData r1 ''gps'' = Inr f1
         \<and> formatPositionData r2 ''gps'' = Inr f2
         \<and> fst (GPS_service_getAllLastPositions env (Some 2) (Some 1)) =
             SuccessAll [f1, f2]
               \<lparr>total_s = 5, returned_s = 2, offset_s = 1, limit_s = Some 2,
                format_s = ''gps''\<rparr>"
    by (simp add: format_gps_object)
qed

theorem listing_page_witness:
  "fst (GPS_service_getAllLastPositions (sample_env five_devices) (Some 2) (Some 1)) =
     SuccessAll [device_view ''device-002'', device_view ''device-003'']
       \<lparr>total_s = 5, returned_s = 2, offset_s = 1, limit_s = Some 2, format_s = ''gps''\<rparr>"
proof -
  have hyp: "online (sample_env five_devices)
      \<and> redis_keys (sample_env five_devices) (keyPrefix (sample_env five_devices)) =
          [''gps:last:device-001'', ''gps:last:device-002'', ''gps:last:device-003'',
           ''gps:last:device-004'', ''gps:last:device-005'']
      \<and> (\<forall>k \<in> set [''gps:last:device-001'', ''gps:last:device-002'', ''gps:last:device-003'',
                    ''gps:last:device-004'', ''gps:last:device-005''].
            found_for (sample_env five_devices)
              (replace_first (keyPrefix (sample_env five_devices)) k) \<noteq> [])"
    by (intro conjI) (rule online_sample keys_five each_five)+
  have "\<exists>r1 r2 f1 f2.
           [device_record ''device-002''] = [r1]
         \<and> [device_record ''device-003''] = [r2]
         \<and> formatPositionData r1 ''gps'' = Inr f1
         \<and> formatPositionData r2 ''gps'' = Inr f2
         \<and> fst (GPS_service_getAllLastPositions (sample_env five_devices) (Some 2) (Some 1)) =
             SuccessAll [f1, f2]
               \<lparr>total_s = 5, returned_s = 2, offset_s = 1, limit_s = Some 2,
                format_s = ''gps''\<rparr>"
    using listing_page [where env = "sample_env five_devices", THEN conjunct2, rule_format,
            OF hyp]
    by (simp only: ids_five found_five)
  then show ?thesis
    by (auto simp: format_device_record)
qed

text \<open>
  Claim C10. Without a limit (\<^verbatim>\<open>null\<close> or absent) the listing of either service
  returns the whole projected list whatever the offset is: the offset is not applied,
  \<open>returned\<close> equals \<open>total\<close>, and the summary repeats the offset given by the
  caller (0 when none was given).
\<close>

theorem listing_without_limit:
  "(fst (GPS_getAllLastPositions env) = Inr ps \<longrightarrow>
      (\<exists>formatted.
         map_throwing (\<lambda>position. formatPositionData position ''gps'') ps = Inr formatted
         \<and> fst (GPS_service_getAllLastPositions env None offset_opt) =
             SuccessAll formatted
               \<lparr>total_s = length formatted, returned_s = length formatted,
                offset_s = (case offset_opt of None \<Rightarrow> 0 | Some n \<Rightarrow> n),
                limit_s = None, format_s = ''gps''\<rparr>))
   \<and> (fst (Mobile_getAllLastPositions env) = Inr us \<longrightarrow>
      (\<exists>formatted.
         map_throwing formatPositionDataForMobile us = Inr formatted
         \<and> fst (Mobile_service_getAllLastPositions env None offset_opt) =
             SuccessAll formatted
               \<lparr>total_s = length formatted, returned_s = length formatted,
                offset_s = (case offset_opt of None \<Rightarrow> 0 | Some n \<Rightarrow> n),
                limit_s = None, format_s = ''mobile''\<rparr>))"
proof (intro conjI impI)
  assume a: "fst (GPS_getAllLastPositions env) = Inr ps"
  show "\<exists>formatted.
         map_throwing (\<lambda>position. formatPositionData position ''gps'') ps = Inr formatted
         \<and> fst (GPS_service_getAllLastPositions env None offset_opt) =
             SuccessAll formatted
               \<lparr>total_s = length formatted, returned_s = length formatted,
                offset_s = (case offset_opt of None \<Rightarrow> 0 | Some n \<Rightarrow> n),
                limit_s = None, format_s = ''gps''\<rparr>"
    using GPS_listing_views [OF a] GPS_service_listing [OF a, of None offset_opt]
    by (simp add: paginate_None)
next
  assume a: "fst (Mobile_getAllLastPositions env) = Inr us"
  show "\<exists>formatted.
         map_throwing formatPositionDataForMobile us = Inr formatted
         \<and> fst (Mobile_service_getAllLastPositions env None offset_opt) =
             SuccessAll formatted
               \<lparr>total_s = length formatted, returned_s = length formatted,
                offset_s = (case offset_opt of None \<Rightarrow> 0 | Some n \<Rightarrow> n),
                limit_s = None, format_s = ''mobile''\<rparr>"
    using Mobile_listing_views [OF a] Mobile_service_listing [OF a, of None offset_opt]
    by (simp add: paginate_None)
qed

theorem listing_without_limit_witness:
  "fst (GPS_service_getAllLastPositions (sample_env five_devices) None (Some 3)) =
     SuccessAll [device_view ''device-001'', device_view ''device-002'',
                 device_view ''device-003'', device_view ''device-004'',
                 device_view ''device-005'']
       \<lparr>total_s = 5, returned_s = 5, offset_s = 3, limit_s = None, format_s = ''gps''\<rparr>
   \<and> fst (Mobile_service_getAllLastPositions (sample_env two_users) None None) =
     SuccessAll [JObj [(''id'', JStr ''user-001''), (''lat'', JNum (Finite (- 12.04))),
                       (''lng'', JNum (Finite (- 77.03))), (''name'', JStr ''user-001'')],
                 JObj [(''id'', JStr ''phone-7''), (''lat'', JNum (Finite (- 12.04))),
                       (''lng'', JNull), (''name'', JStr ''Juan'')]]
       \<lparr>total_s = 2, returned_s = 2, offset_s = 0, limit_s = None, format_s = ''mobile''\<rparr>"
proof -
  have gps: "map_throwing (\<lambda>position. formatPositionData position ''gps'')
      [device_record ''device-001'', device_record ''device-002'',
       device_record ''device-003'', device_record ''device-004'',
       device_record ''device-005'']
     = Inr [device_view ''device-001'', device_view ''device-002'',
            device_view ''device-003'', device_view ''device-004'',
            device_view ''device-005'']"
    by (simp add: format_device_record)
  have mob: "map_throwing formatPositionDataForMobile
      (mobile_found_for (sample_env two_users) ''user-001''
        @ mobile_found_for (sample_env two_users) ''user-002'')
     = Inr [JObj [(''id'', JStr ''user-001''), (''lat'', JNum (Finite (- 12.04))),
                  (''lng'', JNum (Finite (- 77.03))), (''name'', JStr ''user-001'')],
            JObj [(''id'', JStr ''phone-7''), (''lat'', JNum (Finite (- 12.04))),
                  (''lng'', JNull), (''name'', JStr ''Juan'')]]"
    by (simp add: found_users formatPositionDataForMobile_def peek_def or_else_def)
  show ?thesis
    using listing_without_limit [of "sample_env five_devices" _ "Some 3" _, THEN conjunct1,
            rule_format, OF all_five]
      listing_without_limit [of "sample_env two_users" _ None _, THEN conjunct2,
            rule_format, OF all_users]
      gps mob
    by auto
qed

section \<open>View projector\<close>

text \<open>
  Claim C6, as amended. For every record (an object) and each of the three views the
  projection returns a value and never throws. In the views \<open>gps\<close> and \<open>mobile\<close> the
  result has a field \<open>id\<close> whose value is the record's \<open>deviceId\<close>. In the view
  \<open>full\<close> the record is returned as it is: the identifier stays under \<open>deviceId\<close>
  and no field is renamed or added.
\<close>

theorem formatPositionData_id:
  "(\<exists>out. formatPositionData (JObj kvs) ''gps'' = Inr out
          \<and> has_prop out ''id'' \<and> peek out ''id'' = peek (JObj kvs) ''deviceId'')
   \<and> (\<exists>out. formatPositionData (JObj kvs) ''mobile'' = Inr out
          \<and> has_prop out ''id'' \<and> peek out ''id'' = peek (JObj kvs) ''deviceId'')
   \<and> formatPositionData (JObj kvs) ''full'' = Inr (JObj kvs)"
  by (simp add: formatPositionData_def peek_def has_prop_def)

text \<open>
  Claim C6 as written fails in the view \<open>full\<close>: the projection of a record with a
  \<open>deviceId\<close> is that record, which has no field \<open>id\<close>.
\<close>

theorem formatPositionData_full_no_id:
  "formatPositionData (JObj [(''deviceId'', JStr ''device-001''),
                             (''lat'', JNum (Finite 1)), (''lng'', JNum (Finite 2))]) ''full''
     = Inr (JObj [(''deviceId'', JStr ''device-001''),
                  (''lat'', JNum (Finite 1)), (''lng'', JNum (Finite 2))])
   \<and> \<not> has_prop (JObj [(''deviceId'', JStr ''device-001''),
                        (''lat'', JNum (Finite 1)), (''lng'', JNum (Finite 2))]) ''id''"
  by (simp add: formatPositionData_def has_prop_def)

text \<open>
  Claim C7, as amended. In the mobile view of either service the field \<open>name\<close> is the
  record's identifier when the record's \<open>name\<close> is \<^verbatim>\<open>null\<close>, unset or the empty
  string, and it is the record's \<open>name\<close> when that is a non-empty string.
\<close>

theorem mobile_view_name:
  "(\<exists>out. formatPositionData (JObj kvs) ''mobile'' = Inr out
      \<and> (peek (JObj kvs) ''name'' \<in> {JUndefined, JNull, JStr []}
           \<longrightarrow> peek out ''name'' = peek (JObj kvs) ''deviceId'')
      \<and> (\<forall>s. peek (JObj kvs) ''name'' = JStr s \<and> s \<noteq> [] \<longrightarrow> peek out ''name'' = JStr s))
   \<and> (\<exists>out. formatPositionDataForMobile (JObj kvs) = Inr out
      \<and> (peek (JObj kvs) ''name'' \<in> {JUndefined, JNull, JStr []}
           \<longrightarrow> peek out ''name'' = peek (JObj kvs) ''userId'')
      \<and> (\<forall>s. peek (JObj kvs) ''name'' = JStr s \<and> s \<noteq> [] \<longrightarrow> peek out ''name'' = JStr s))"
  by (auto simp: formatPositionData_def formatPositionDataForMobile_def peek_def or_else_def)

theorem mobile_view_name_witness:
  "(\<exists>out. formatPositionData
            (JObj [(''deviceId'', JStr ''device-004''), (''name'', JNull)]) ''mobile'' = Inr out
      \<and> peek out ''name'' = JStr ''device-004'')
   \<and> (\<exists>out. formatPositionDataForMobile
            (JObj [(''userId'', JStr ''user-001''), (''name'', JStr ''Juan'')]) = Inr out
      \<and> peek out ''name'' = JStr ''Juan'')"
  using mobile_view_name [of "[(''deviceId'', JStr ''device-004''), (''name'', JNull)]"]
    mobile_view_name [of "[(''userId'', JStr ''user-001''), (''name'', JStr ''Juan'')]"]
  by (simp add: peek_def)

text \<open>
  Claim C7 as written fails for a record whose \<open>name\<close> is set to the empty string: the
  mobile view carries the identifier, not the name.
\<close>

theorem mobile_view_empty_name:
  "formatPositionData
     (JObj [(''deviceId'', JStr ''device-004''), (''name'', JStr [])]) ''mobile''
   = Inr (JObj [(''id'', JStr ''device-004''), (''lat'', JUndefined), (''lng'', JUndefined),
                (''name'', JStr ''device-004'')])"
  by (simp add: formatPositionData_def peek_def or_else_def)

end
